theory Spec2Isabelle
  imports Complex_Main "HOL-Library.AList"
begin

section \<open>Response scoring (services/scoring)\<close>

text \<open>
  The scoring service works on JavaScript numbers.  Points, weights and percentages are
  modelled as exact rationals (\<^typ>\<open>rat\<close>), counters as natural numbers and domain
  numbers as integers; \<open>answer\<close> and \<open>riskLevel\<close> stay strings, as in the
  \<open>ControlScore\<close> interface.
\<close>

record ControlScore =
  controlId :: string
  domainNumber :: int
  riskLevel :: string
  answer :: string
  pointsYes :: rat
  pointsPartial :: rat
  pointsEarned :: rat
  weightMultiplier :: rat

text \<open>The value type of the local \<open>domainMap\<close>.\<close>

record DomainData =
  totalPoints :: rat
  earnedPoints :: rat
  controlCount :: nat
  gapCount :: nat
  partialCount :: nat

record DomainScore =
  domainNumber :: int
  domainName :: string
  totalPoints :: rat
  earnedPoints :: rat
  percentage :: rat
  controlCount :: nat
  gapCount :: nat
  partialCount :: nat

text \<open>
  The mutable locals of \<open>calculateScores\<close>.  The \<open>Map\<close> keeps its keys in insertion
  order, so it is an association list: \<^const>\<open>map_of\<close> is \<open>get\<close>, and
  \<^const>\<open>AList.update\<close> is \<open>set\<close> (in place for a known key, at the end for a new one).
\<close>

record ScoreState =
  totalPointsAvailable :: rat
  totalPointsEarned :: rat
  criticalGaps :: nat
  highGaps :: nat
  mediumGaps :: nat
  lowGaps :: nat
  domainMap :: "(int \<times> DomainData) list"

record ScoreResult =
  overallScore :: rat
  totalControlsAssessed :: nat
  criticalGaps :: nat
  highGaps :: nat
  mediumGaps :: nat
  lowGaps :: nat
  domainScores :: "DomainScore list"

definition DOMAIN_NAMES :: "int \<Rightarrow> string option" where
  "DOMAIN_NAMES num =
     (if num = 1 then Some ''Governance & Accountability''
      else if num = 2 then Some ''Lawful Basis & Consent Management''
      else if num = 3 then Some ''Data Subject Rights Fulfillment''
      else if num = 4 then Some ''Data Security & Cybersecurity (NCA ECC)''
      else if num = 5 then Some ''Third-Party & Data Transfer Compliance''
      else if num = 6 then Some ''Breach Management & Notification''
      else if num = 7 then Some ''Records & Documentation''
      else if num = 8 then Some ''Training & Awareness''
      else if num = 9 then Some ''Sectoral & Special Processing''
      else if num = 10 then Some ''MoH Health Sector Controls''
      else None)"

fun decimalOfNat :: "nat \<Rightarrow> string" where
  "decimalOfNat n =
     (if n < 10 then [char_of (48 + n)]
      else decimalOfNat (n div 10) @ [char_of (48 + n mod 10)])"

definition decimalOfInt :: "int \<Rightarrow> string" where
  "decimalOfInt i = (if i < 0 then CHR ''-'' # decimalOfNat (nat (- i)) else decimalOfNat (nat i))"

text \<open>\<open>Math.round\<close>: the nearest integer, a tie going towards plus infinity.\<close>

definition Math_round :: "rat \<Rightarrow> int" where
  "Math_round x = \<lfloor>x + 1 / 2\<rfloor>"

definition emptyDomain :: DomainData where
  "emptyDomain = \<lparr>DomainData.totalPoints = 0, earnedPoints = 0, controlCount = 0,
                   gapCount = 0, partialCount = 0\<rparr>"

definition countGap :: "ScoreState \<Rightarrow> string \<Rightarrow> ScoreState" where
  "countGap s risk =
     (if risk = ''CRITICAL'' then s\<lparr>ScoreState.criticalGaps := ScoreState.criticalGaps s + 1\<rparr>
      else if risk = ''HIGH'' then s\<lparr>ScoreState.highGaps := ScoreState.highGaps s + 1\<rparr>
      else if risk = ''MEDIUM'' then s\<lparr>ScoreState.mediumGaps := ScoreState.mediumGaps s + 1\<rparr>
      else if risk = ''LOW'' then s\<lparr>ScoreState.lowGaps := ScoreState.lowGaps s + 1\<rparr>
      else s)"

definition domainStep :: "(int \<times> DomainData) list \<Rightarrow> ControlScore \<Rightarrow> (int \<times> DomainData) list" where
  "domainStep dm cs =
     (let num = ControlScore.domainNumber cs;
          maxPoints = pointsYes cs * weightMultiplier cs;
          earned = pointsEarned cs * weightMultiplier cs;
          dm0 = (if map_of dm num = None then AList.update num emptyDomain dm else dm);
          domain = (case map_of dm0 num of Some d \<Rightarrow> d | None \<Rightarrow> emptyDomain);
          domain' = domain\<lparr>
            DomainData.totalPoints := DomainData.totalPoints domain + maxPoints,
            DomainData.earnedPoints := DomainData.earnedPoints domain + earned,
            DomainData.controlCount := DomainData.controlCount domain + 1,
            DomainData.gapCount :=
              (if answer cs = ''NO'' then DomainData.gapCount domain + 1
               else DomainData.gapCount domain),
            DomainData.partialCount :=
              (if answer cs = ''PARTIAL'' then DomainData.partialCount domain + 1
               else DomainData.partialCount domain)\<rparr>
      in AList.update num domain' dm0)"

text \<open>One pass of the \<open>for (const cs of assessed)\<close> loop.\<close>

definition scoreStep :: "ScoreState \<Rightarrow> ControlScore \<Rightarrow> ScoreState" where
  "scoreStep s cs =
     (let maxPoints = pointsYes cs * weightMultiplier cs;
          earned = pointsEarned cs * weightMultiplier cs;
          s1 = s\<lparr>totalPointsAvailable := totalPointsAvailable s + maxPoints,
                 totalPointsEarned := totalPointsEarned s + earned\<rparr>;
          s2 = (if answer cs = ''NO'' then countGap s1 (riskLevel cs) else s1)
      in s2\<lparr>domainMap := domainStep (domainMap s2) cs\<rparr>)"

definition initialState :: ScoreState where
  "initialState = \<lparr>totalPointsAvailable = 0, totalPointsEarned = 0, ScoreState.criticalGaps = 0,
                    highGaps = 0, mediumGaps = 0, lowGaps = 0, domainMap = []\<rparr>"

definition toDomainScore :: "int \<times> DomainData \<Rightarrow> DomainScore" where
  "toDomainScore e =
     (case e of (num, data) \<Rightarrow>
        \<lparr>DomainScore.domainNumber = num,
         domainName = (case DOMAIN_NAMES num of Some n \<Rightarrow> n
                       | None \<Rightarrow> ''Domain '' @ decimalOfInt num),
         totalPoints = DomainData.totalPoints data,
         earnedPoints = DomainData.earnedPoints data,
         percentage =
           (if DomainData.totalPoints data > 0
            then of_int (Math_round
                   (DomainData.earnedPoints data / DomainData.totalPoints data * 10000)) / 100
            else 0),
         controlCount = DomainData.controlCount data,
         gapCount = DomainData.gapCount data,
         partialCount = DomainData.partialCount data\<rparr>)"

definition calculateScores :: "ControlScore list \<Rightarrow> ScoreResult" where
  "calculateScores controlScores =
     (let assessed = filter (\<lambda>c. answer c \<noteq> ''NA'') controlScores;
          s = foldl scoreStep initialState assessed;
          ds = sort_key DomainScore.domainNumber (map toDomainScore (domainMap s))
      in \<lparr>overallScore =
            (if totalPointsAvailable s > 0
             then of_int (Math_round (totalPointsEarned s / totalPointsAvailable s * 10000)) / 100
             else 0),
          totalControlsAssessed = length assessed,
          criticalGaps = ScoreState.criticalGaps s,
          highGaps = ScoreState.highGaps s,
          mediumGaps = ScoreState.mediumGaps s,
          lowGaps = ScoreState.lowGaps s,
          domainScores = ds\<rparr>)"

definition getPointsForAnswer :: "string \<Rightarrow> rat \<Rightarrow> rat \<Rightarrow> rat" where
  "getPointsForAnswer ans pYes pPartial =
     (if ans = ''YES'' then pYes
      else if ans = ''PARTIAL'' then pPartial
      else if ans = ''NO'' then 0
      else if ans = ''NA'' then 0
      else 0)"

definition getDefaultDeadlineDays :: "string \<Rightarrow> int" where
  "getDefaultDeadlineDays risk =
     (if risk = ''CRITICAL'' then 30
      else if risk = ''HIGH'' then 60
      else if risk = ''MEDIUM'' then 90
      else if risk = ''LOW'' then 180
      else 90)"


section \<open>Branching rules (services/branchingRules)\<close>

record OrgProfile =
  orgType :: string
  processesMinors :: bool
  crossBorderTransfers :: bool
  usesCloud :: string
  conductsResearch :: bool
  usesAiOrAutomatedDecisions :: bool
  continuousMonitoring :: bool

record BranchingResult =
  activatedControls :: "string list"
  naControls :: "string list"

definition HEALTH_ORG_TYPES :: "string list" where
  "HEALTH_ORG_TYPES =
     [''government_hospital'', ''private_hospital'', ''clinic_small'',
      ''clinic_large'', ''insurer'', ''pharma'', ''health_tech'']"

text \<open>
  A JavaScript \<open>Set\<close> of strings, in insertion order (the order \<open>Array.from\<close> returns);
  \<open>forEach(c => set.add(c))\<close> over an array literal is \<open>addAll\<close>.
\<close>

definition setAdd :: "string list \<Rightarrow> string \<Rightarrow> string list" where
  "setAdd s c = (if c \<in> set s then s else s @ [c])"

definition addAll :: "string list \<Rightarrow> string list \<Rightarrow> string list" where
  "addAll s cs = foldl setAdd s cs"

definition evaluateBranchingRules :: "OrgProfile \<Rightarrow> BranchingResult" where
  "evaluateBranchingRules profile =
     (let activated0 = [];
          naControls0 = [];
          activated1 = (if processesMinors profile
                        then addAll activated0 [''PDPL-G.10'', ''PDPL-R.10''] else activated0);
          activated2 = (if crossBorderTransfers profile
                        then addAll activated1
                               [''PDPL-T.5'', ''PDPL-T.6'', ''PDPL-T.7'', ''PDPL-T.8'', ''PDPL-T.9'',
                                ''HS-PDPL-013'', ''NCA-D4.R2'']
                        else activated1);
          naControls1 = (if \<not> crossBorderTransfers profile
                         then addAll naControls0
                                [''PDPL-T.5'', ''PDPL-T.6'', ''PDPL-T.7'', ''PDPL-T.8'', ''PDPL-T.9'',
                                 ''HS-PDPL-013'']
                         else naControls0);
          activated3 = (if orgType profile \<in> set HEALTH_ORG_TYPES
                        then addAll activated2
                               [''PDPL-C.1'', ''HS-PDPL-001'', ''HS-PDPL-002'', ''HS-PDPL-003'',
                                ''PDPL-G.1'']
                        else activated2);
          activated4 = (if usesCloud profile = ''yes'' \<or> usesCloud profile = ''partial''
                        then addAll activated3 [''PDPL-T.2'', ''NCA-D4.R2''] else activated3);
          activated5 = (if usesAiOrAutomatedDecisions profile
                        then addAll activated4 [''PDPL-G.3'', ''HS-PDPL-020''] else activated4)
      in \<lparr>activatedControls = activated5, naControls = naControls1\<rparr>)"

text \<open>
  \<open>conditionalOn\<close> has type \<open>any\<close>: it is the JSON column of the control, so a JSON value,
  \<open>null\<close> when the control declares no condition.
\<close>

datatype json =
    JNull
  | JBool bool
  | JNum rat
  | JStr string
  | JArr "json list"
  | JObj "(string \<times> json) list"

text \<open>\<open>conditionalOn && typeof conditionalOn === 'object'\<close>\<close>

fun truthy :: "json \<Rightarrow> bool" where
  "truthy JNull = False"
| "truthy (JBool b) = b"
| "truthy (JNum n) = (n \<noteq> 0)"
| "truthy (JStr s) = (s \<noteq> [])"
| "truthy (JArr xs) = True"
| "truthy (JObj kvs) = True"

fun typeofObject :: "json \<Rightarrow> bool" where
  "typeofObject JNull = True"
| "typeofObject (JArr xs) = True"
| "typeofObject (JObj kvs) = True"
| "typeofObject v = False"

text \<open>\<open>Object.entries\<close>: the members of an object, the indexed elements of an array.\<close>

fun objectEntries :: "json \<Rightarrow> (string \<times> json) list" where
  "objectEntries (JObj kvs) = kvs"
| "objectEntries (JArr xs) = zip (map decimalOfNat [0..<length xs]) xs"
| "objectEntries v = []"

text \<open>
  \<open>(profile as any)[key]\<close>: the field of that name, \<open>None\<close> for \<open>undefined\<close>.  (A name
  inherited from \<open>Object.prototype\<close> yields a function or an object, which like
  \<open>undefined\<close> is never \<open>===\<close> a JSON value.)
\<close>

definition profileField :: "OrgProfile \<Rightarrow> string \<Rightarrow> json option" where
  "profileField profile key =
     (if key = ''orgType'' then Some (JStr (orgType profile))
      else if key = ''processesMinors'' then Some (JBool (processesMinors profile))
      else if key = ''crossBorderTransfers'' then Some (JBool (crossBorderTransfers profile))
      else if key = ''usesCloud'' then Some (JStr (usesCloud profile))
      else if key = ''conductsResearch'' then Some (JBool (conductsResearch profile))
      else if key = ''usesAiOrAutomatedDecisions''
        then Some (JBool (usesAiOrAutomatedDecisions profile))
      else if key = ''continuousMonitoring'' then Some (JBool (continuousMonitoring profile))
      else None)"

text \<open>
  \<open>a === b\<close> on JSON values: primitives by type and value; an array or an object is only
  identical to itself, and the value read from the profile is never the one stored in the
  control.
\<close>

fun strictEquals :: "json \<Rightarrow> json \<Rightarrow> bool" where
  "strictEquals JNull JNull = True"
| "strictEquals (JBool a) (JBool b) = (a = b)"
| "strictEquals (JNum a) (JNum b) = (a = b)"
| "strictEquals (JStr a) (JStr b) = (a = b)"
| "strictEquals a b = False"

definition strictNotEquals :: "json option \<Rightarrow> json \<Rightarrow> bool" where
  "strictNotEquals profileValue v =
     (case profileValue of None \<Rightarrow> True | Some pv \<Rightarrow> \<not> strictEquals pv v)"

text \<open>The \<open>for (const [key, value] of Object.entries(conditionalOn))\<close> loop.\<close>

fun entriesMatch :: "OrgProfile \<Rightarrow> (string \<times> json) list \<Rightarrow> bool" where
  "entriesMatch profile [] = True"
| "entriesMatch profile ((key, v) # rest) =
     (if strictNotEquals (profileField profile key) v then False
      else entriesMatch profile rest)"

definition isControlApplicable ::
  "string \<Rightarrow> json \<Rightarrow> OrgProfile \<Rightarrow> BranchingResult \<Rightarrow> bool" where
  "isControlApplicable cid conditionalOn profile branchingResult =
     (if cid \<in> set (naControls branchingResult) then False
      else if truthy conditionalOn \<and> typeofObject conditionalOn
        then entriesMatch profile (objectEntries conditionalOn)
      else True)"

definition isHealthOrg :: "string \<Rightarrow> bool" where
  "isHealthOrg t = (t \<in> set HEALTH_ORG_TYPES)"


section \<open>Stored data (the tables the route handlers read and write)\<close>

text \<open>
  Generated row identifiers and user and organisation identifiers are natural numbers; control
  identifiers are the catalogue strings.  An instant is a number of milliseconds.  A failed
  request is the pair of the HTTP status and the \<open>code\<close> of the JSON body.
\<close>

type_synonym ident = nat
type_synonym instant = int
type_synonym failure = "nat \<times> string"

datatype AssessmentStatus = DRAFT | IN_REVIEW | FINALIZED | ARCHIVED

datatype TaskStatus = OPEN | IN_PROGRESS | UNDER_REVIEW | CLOSED | DEFERRED

record JwtPayload =
  userId :: ident
  orgId :: ident
  role :: string

record Organization =
  id :: ident
  orgType :: string
  onboardingCompleted :: bool

record Control =
  id :: string
  domainNumber :: int
  riskLevel :: string
  pointsYes :: rat
  pointsPartial :: rat
  weightMultiplier :: rat
  objectiveEn :: string
  regArticles :: "string option"
  transferRegArticles :: "string option"
  ncaRef :: "string option"
  mohPolicyRef :: "string option"
  evidenceGuidanceEn :: "string option"
  responsibleRoles :: "string list"
  conditionalOn :: json

record Assessment =
  id :: ident
  orgId :: ident
  assessmentVersion :: int
  status :: AssessmentStatus
  isDeleted :: bool
  createdBy :: ident
  overallScore :: "rat option"
  totalControlsAssessed :: "nat option"
  criticalGaps :: "nat option"
  highGaps :: "nat option"
  mediumGaps :: "nat option"
  lowGaps :: "nat option"
  domainScores :: "DomainScore list option"
  finalizedBy :: "ident option"
  finalizedAt :: "instant option"

record Response =
  id :: ident
  assessmentId :: ident
  controlId :: string
  answer :: string
  naJustification :: "string option"
  pointsEarned :: rat
  "notes" :: "string option"
  answeredBy :: ident
  lastModifiedBy :: "ident option"
  lastModifiedAt :: "instant option"

record RemediationTask =
  id :: ident
  orgId :: ident
  assessmentId :: ident
  controlId :: string
  gapType :: string
  riskLevel :: string
  title :: string
  status :: TaskStatus
  legalBasis :: string
  evidenceRequired :: "string list"
  responsibleRole :: "string option"
  deadline :: instant
  evidenceRequiredForClosure :: bool
  "notes" :: "string option"
  closedAt :: "instant option"
  isDeleted :: bool

record EvidenceFile =
  id :: ident
  orgId :: ident
  taskId :: "ident option"
  isDeleted :: bool

text \<open>An audit row; the JSON payloads and the request metadata are not kept.\<close>

record AuditLog =
  orgId :: ident
  userId :: ident
  action :: string
  entityType :: string
  entityId :: ident

record Db =
  organizations :: "Organization list"
  controls :: "Control list"
  assessments :: "Assessment list"
  responses :: "Response list"
  remediationTasks :: "RemediationTask list"
  evidenceFiles :: "EvidenceFile list"
  auditLogs :: "AuditLog list"

text \<open>The identifier the store gives a new row: one no row of the table has.\<close>

definition freshId :: "ident list \<Rightarrow> ident" where
  "freshId ids = Suc (fold max ids 0)"

definition logAudit :: "Db \<Rightarrow> AuditLog \<Rightarrow> Db" where
  "logAudit db entry = db\<lparr>auditLogs := auditLogs db @ [entry]\<rparr>"

definition ROLE_ORG_ADMIN :: string where "ROLE_ORG_ADMIN = ''org_admin''"
definition ROLE_DPO :: string where "ROLE_DPO = ''dpo''"
definition ROLE_COMPLIANCE_OFFICER :: string where "ROLE_COMPLIANCE_OFFICER = ''compliance_officer''"



section \<open>Assessment routes (routes/assessments)\<close>

subsection \<open>POST /assessments\<close>




definition newAssessment :: "ident \<Rightarrow> ident \<Rightarrow> int \<Rightarrow> ident \<Rightarrow> Assessment" where
  "newAssessment aid org version creator =
     \<lparr>Assessment.id = aid, orgId = org, assessmentVersion = version, status = DRAFT,
      isDeleted = False, createdBy = creator, overallScore = None,
      totalControlsAssessed = None, criticalGaps = None, highGaps = None, mediumGaps = None,
      lowGaps = None, domainScores = None, finalizedBy = None, finalizedAt = None\<rparr>"


subsection \<open>PUT /assessments/:id/responses/:controlId\<close>

record ResponseBody =
  answer :: string
  naJustification :: "string option"
  "notes" :: "string option"

definition findAssessment :: "Db \<Rightarrow> ident \<Rightarrow> ident \<Rightarrow> Assessment option" where
  "findAssessment db aid org =
     find (\<lambda>a. Assessment.id a = aid \<and> Assessment.orgId a = org \<and> \<not> Assessment.isDeleted a)
       (assessments db)"

definition mandatoryControls :: "string list" where
  "mandatoryControls = [''PDPL-C.1'', ''PDPL-G.1'', ''HS-PDPL-001'', ''HS-PDPL-002'', ''HS-PDPL-003'']"

definition findResponse :: "Db \<Rightarrow> ident \<Rightarrow> string \<Rightarrow> Response option" where
  "findResponse db aid cid =
     find (\<lambda>r. Response.assessmentId r = aid \<and> Response.controlId r = cid) (responses db)"

definition findExistingTask :: "Db \<Rightarrow> ident \<Rightarrow> string \<Rightarrow> ident \<Rightarrow> RemediationTask option" where
  "findExistingTask db aid cid org =
     find (\<lambda>t. RemediationTask.assessmentId t = aid \<and> RemediationTask.controlId t = cid
              \<and> RemediationTask.orgId t = org \<and> \<not> RemediationTask.isDeleted t)
       (remediationTasks db)"

text \<open>\<open>[a, b, c, d].filter(Boolean).join(' | ')\<close>\<close>

fun joinWith :: "string \<Rightarrow> string list \<Rightarrow> string" where
  "joinWith sep [] = []"
| "joinWith sep [x] = x"
| "joinWith sep (x # y # rest) = x @ sep @ joinWith sep (y # rest)"

definition filterBoolean :: "string option list \<Rightarrow> string list" where
  "filterBoolean xs = concat (map (\<lambda>x. case x of None \<Rightarrow> [] | Some v \<Rightarrow> if v = [] then [] else [v]) xs)"

definition startsWith :: "string \<Rightarrow> string \<Rightarrow> bool" where
  "startsWith s pre = (take (length pre) s = pre)"

text \<open>The dash of the urgent task's title, as its UTF-8 bytes.\<close>

definition emDash :: string where
  "emDash = [char_of (226 :: nat), char_of (128 :: nat), char_of (148 :: nat)]"

text \<open>
  The \<open>data\<close> of the update of an existing response.  \<open>notes\<close> absent from the body is
  \<open>undefined\<close>, which an update leaves as it is and a create stores as \<open>null\<close>.
\<close>

definition updatedResponse :: "JwtPayload \<Rightarrow> instant \<Rightarrow> ResponseBody \<Rightarrow> rat \<Rightarrow> Response \<Rightarrow> Response" where
  "updatedResponse user now body points r =
     r\<lparr>Response.answer := ResponseBody.answer body,
       Response.naJustification :=
         (if ResponseBody.answer body = ''NA'' then ResponseBody.naJustification body else None),
       Response.pointsEarned := points,
       Response.notes :=
         (case ResponseBody.notes body of None \<Rightarrow> Response.notes r | Some n \<Rightarrow> Some n),
       lastModifiedBy := Some (JwtPayload.userId user),
       lastModifiedAt := Some now\<rparr>"

definition upsertResponse ::
  "Db \<Rightarrow> JwtPayload \<Rightarrow> instant \<Rightarrow> ident \<Rightarrow> string \<Rightarrow> ResponseBody \<Rightarrow> rat
     \<Rightarrow> Response option \<Rightarrow> Db \<times> Response" where
  "upsertResponse db user now aid cid body points existingResponse =
     (case existingResponse of
        Some e \<Rightarrow>
          (db\<lparr>responses :=
               map (\<lambda>r. if Response.id r = Response.id e
                        then updatedResponse user now body points r else r)
                 (responses db)\<rparr>,
           updatedResponse user now body points e)
      | None \<Rightarrow>
          (let created =
                 \<lparr>Response.id = freshId (map Response.id (responses db)),
                  assessmentId = aid, controlId = cid, answer = ResponseBody.answer body,
                  naJustification =
                    (if ResponseBody.answer body = ''NA'' then ResponseBody.naJustification body
                     else None),
                  pointsEarned = points,
                  notes = ResponseBody.notes body, answeredBy = JwtPayload.userId user,
                  lastModifiedBy = None, lastModifiedAt = None\<rparr>
           in (db\<lparr>responses := responses db @ [created]\<rparr>, created)))"

definition gapTask ::
  "Db \<Rightarrow> JwtPayload \<Rightarrow> instant \<Rightarrow> (instant \<Rightarrow> int \<Rightarrow> instant) \<Rightarrow> ident \<Rightarrow> string
     \<Rightarrow> string \<Rightarrow> Control \<Rightarrow> RemediationTask" where
  "gapTask db user now addDays aid cid ans control =
     (let deadlineDays = getDefaultDeadlineDays (Control.riskLevel control)
      in \<lparr>RemediationTask.id = freshId (map RemediationTask.id (remediationTasks db)),
          orgId = JwtPayload.orgId user,
          assessmentId = aid,
          controlId = cid,
          gapType = (if ans = ''NO'' then ''GAP'' else ''PARTIAL''),
          riskLevel = Control.riskLevel control,
          title = ''Implement: '' @ take 200 (objectiveEn control),
          status = OPEN,
          legalBasis = joinWith '' | ''
            (filterBoolean [regArticles control, transferRegArticles control, ncaRef control,
                            mohPolicyRef control]),
          evidenceRequired = (case evidenceGuidanceEn control of
                                None \<Rightarrow> [] | Some g \<Rightarrow> if g = [] then [] else [g]),
          responsibleRole = (case responsibleRoles control of
                               [] \<Rightarrow> None | r # _ \<Rightarrow> if r = [] then None else Some r),
          deadline = addDays now deadlineDays,
          evidenceRequiredForClosure =
            (Control.riskLevel control = ''CRITICAL'' \<or> Control.riskLevel control = ''HIGH''),
          notes = None, closedAt = None, isDeleted = False\<rparr>)"

definition urgentTask :: "Db \<Rightarrow> JwtPayload \<Rightarrow> instant \<Rightarrow> ident \<Rightarrow> string \<Rightarrow> RemediationTask" where
  "urgentTask db user now aid cid =
     \<lparr>RemediationTask.id = freshId (map RemediationTask.id (remediationTasks db)),
      orgId = JwtPayload.orgId user,
      assessmentId = aid,
      controlId = cid,
      gapType = ''GAP'',
      riskLevel = ''CRITICAL'',
      title = ''URGENT: Transfer suspension required '' @ emDash @ '' '' @ cid,
      status = OPEN,
      legalBasis = ''Transfer Reg. Art. 7'',
      evidenceRequired = [],
      responsibleRole = None,
      deadline = now,
      evidenceRequiredForClosure = True,
      notes = None, closedAt = None, isDeleted = False\<rparr>"

definition createTask :: "Db \<Rightarrow> RemediationTask \<Rightarrow> Db" where
  "createTask db t = db\<lparr>remediationTasks := remediationTasks db @ [t]\<rparr>"

text \<open>
  The handler, in two parts: the writes that follow the checks, and the checks.  \<open>now\<close> is
  the clock reading of the request and \<open>addDays\<close> the function of that name of the date
  library.  The \<open>console.log\<close> of rule 7 changes nothing and is left out.
\<close>

definition writeResponse ::
  "Db \<Rightarrow> JwtPayload \<Rightarrow> instant \<Rightarrow> (instant \<Rightarrow> int \<Rightarrow> instant) \<Rightarrow> ident \<Rightarrow> string
     \<Rightarrow> ResponseBody \<Rightarrow> Control \<Rightarrow> Db \<times> Response" where
  "writeResponse db user now addDays aid cid body control =
     (let ans = ResponseBody.answer body;
          points = getPointsForAnswer ans (Control.pointsYes control) (Control.pointsPartial control);
          existingResponse = findResponse db aid cid;
          upserted = upsertResponse db user now aid cid body points existingResponse;
          db1 = fst upserted;
          response = snd upserted;
          db2 = (if ans = ''NO'' \<or> ans = ''PARTIAL''
                 then (case findExistingTask db1 aid cid (JwtPayload.orgId user) of
                         None \<Rightarrow> createTask db1 (gapTask db1 user now addDays aid cid ans control)
                       | Some t \<Rightarrow> db1)
                 else db1);
          db3 = (if startsWith cid ''PDPL-T.8'' \<and> ans = ''YES''
                 then createTask db2 (urgentTask db2 user now aid cid)
                 else db2);
          db4 = logAudit db3
                  \<lparr>AuditLog.orgId = JwtPayload.orgId user,
                   userId = JwtPayload.userId user, action = ''RESPONSE_SUBMITTED'',
                   entityType = ''response'', entityId = Response.id response\<rparr>
      in (db4, response))"

definition submitResponse ::
  "Db \<Rightarrow> JwtPayload \<Rightarrow> instant \<Rightarrow> (instant \<Rightarrow> int \<Rightarrow> instant) \<Rightarrow> ident \<Rightarrow> string
     \<Rightarrow> ResponseBody \<Rightarrow> failure + (Db \<times> Response)" where
  "submitResponse db user now addDays aid cid body =
     (let ans = ResponseBody.answer body in
      if ans \<notin> set [''YES'', ''PARTIAL'', ''NO'', ''NA''] then Inl (400, ''VALIDATION_ERROR'')
      else
        (case findAssessment db aid (JwtPayload.orgId user) of
           None \<Rightarrow> Inl (404, ''NOT_FOUND'')
         | Some assessment \<Rightarrow>
             if Assessment.status assessment \<noteq> DRAFT \<and> Assessment.status assessment \<noteq> IN_REVIEW
             then Inl (400, ''ASSESSMENT_LOCKED'')
             else
               (case find (\<lambda>c. Control.id c = cid) (controls db) of
                  None \<Rightarrow> Inl (404, ''NOT_FOUND'')
                | Some control \<Rightarrow>
                    (let org = find (\<lambda>g. Organization.id g = JwtPayload.orgId user)
                                 (organizations db)
                     in if ans = ''NA'' \<and> cid \<in> set mandatoryControls \<and> org = None
                        then Inl (500, ''INTERNAL_ERROR'')
                        else if ans = ''NA'' \<and> cid \<in> set mandatoryControls
                                \<and> (case org of Some g \<Rightarrow> isHealthOrg (Organization.orgType g)
                                     | None \<Rightarrow> False)
                        then Inl (400, ''MANDATORY_CONTROL'')
                        else if ans = ''NA''
                                \<and> (case ResponseBody.naJustification body of
                                       None \<Rightarrow> True | Some j \<Rightarrow> j = [] \<or> length j < 20)
                        then Inl (400, ''JUSTIFICATION_REQUIRED'')
                        else Inr (writeResponse db user now addDays aid cid body control)))))"

subsection \<open>POST /assessments/:id/finalize and PUT /assessments/:id/submit-review\<close>







section \<open>Remediation routes (routes/remediation)\<close>

text \<open>
  The stored status of a task is one of the five states; the requested status is whatever
  string the request body carries.
\<close>

definition validTransitions :: "TaskStatus \<Rightarrow> string list" where
  "validTransitions st =
     (case st of
        OPEN \<Rightarrow> [''IN_PROGRESS'', ''DEFERRED'']
      | IN_PROGRESS \<Rightarrow> [''UNDER_REVIEW'', ''DEFERRED'']
      | UNDER_REVIEW \<Rightarrow> [''CLOSED'', ''IN_PROGRESS'', ''DEFERRED'']
      | CLOSED \<Rightarrow> []
      | DEFERRED \<Rightarrow> [''OPEN'', ''IN_PROGRESS''])"

text \<open>The state a string names, as the store reads the \<open>status\<close> of an update.\<close>

definition taskStatusOfString :: "string \<Rightarrow> TaskStatus option" where
  "taskStatusOfString s =
     (if s = ''OPEN'' then Some OPEN
      else if s = ''IN_PROGRESS'' then Some IN_PROGRESS
      else if s = ''UNDER_REVIEW'' then Some UNDER_REVIEW
      else if s = ''CLOSED'' then Some CLOSED
      else if s = ''DEFERRED'' then Some DEFERRED
      else None)"

record StatusBody =
  status :: string
  "notes" :: "string option"
  rejectionNote :: "string option"

text \<open>\<open>!x\<close> for an optional string: absent or empty.\<close>

definition falsy :: "string option \<Rightarrow> bool" where
  "falsy x = (case x of None \<Rightarrow> True | Some v \<Rightarrow> v = [])"

definition findTask :: "Db \<Rightarrow> ident \<Rightarrow> ident \<Rightarrow> RemediationTask option" where
  "findTask db tid org =
     find (\<lambda>t. RemediationTask.id t = tid \<and> RemediationTask.orgId t = org
              \<and> \<not> RemediationTask.isDeleted t) (remediationTasks db)"

definition findEvidence :: "Db \<Rightarrow> ident \<Rightarrow> ident \<Rightarrow> EvidenceFile option" where
  "findEvidence db tid org =
     find (\<lambda>e. EvidenceFile.taskId e = Some tid \<and> EvidenceFile.orgId e = org
              \<and> \<not> EvidenceFile.isDeleted e) (evidenceFiles db)"

definition changeTaskStatus ::
  "Db \<Rightarrow> JwtPayload \<Rightarrow> instant \<Rightarrow> ident \<Rightarrow> StatusBody \<Rightarrow> failure + (Db \<times> RemediationTask)" where
  "changeTaskStatus db user now tid body =
     (case findTask db tid (JwtPayload.orgId user) of
        None \<Rightarrow> Inl (404, ''NOT_FOUND'')
      | Some task \<Rightarrow>
          (let requested = StatusBody.status body in
           if requested \<notin> set (validTransitions (RemediationTask.status task))
           then Inl (422, ''INVALID_TRANSITION'')
           else if RemediationTask.status task = IN_PROGRESS \<and> requested = ''UNDER_REVIEW''
                   \<and> falsy (StatusBody.notes body) \<and> falsy (RemediationTask.notes task)
           then Inl (400, ''NOTES_REQUIRED'')
           else if requested = ''CLOSED''
                   \<and> role user \<notin> set [ROLE_DPO, ROLE_ORG_ADMIN, ROLE_COMPLIANCE_OFFICER]
           then Inl (403, ''FORBIDDEN'')
           else if requested = ''CLOSED'' \<and> evidenceRequiredForClosure task
                   \<and> findEvidence db (RemediationTask.id task) (JwtPayload.orgId user) = None
           then Inl (400, ''EVIDENCE_REQUIRED'')
           else if requested = ''DEFERRED'' \<and> role user \<noteq> ROLE_DPO \<and> role user \<noteq> ROLE_ORG_ADMIN
           then Inl (403, ''FORBIDDEN'')
           else if requested = ''DEFERRED'' \<and> falsy (StatusBody.notes body)
           then Inl (400, ''JUSTIFICATION_REQUIRED'')
           else if RemediationTask.status task = UNDER_REVIEW \<and> requested = ''IN_PROGRESS''
                   \<and> falsy (rejectionNote body)
           then Inl (400, ''REJECTION_NOTE_REQUIRED'')
           else
             (case taskStatusOfString requested of
                None \<Rightarrow> Inl (500, ''INTERNAL_ERROR'')
              | Some st \<Rightarrow>
                  (let change = (\<lambda>t. t\<lparr>RemediationTask.status := st,
                                          RemediationTask.notes :=
                                            (if falsy (StatusBody.notes body)
                                             then RemediationTask.notes task
                                             else StatusBody.notes body),
                                          closedAt := (if requested = ''CLOSED'' then Some now
                                                       else closedAt t)\<rparr>);
                       db1 = db\<lparr>remediationTasks :=
                                map (\<lambda>t. if RemediationTask.id t = RemediationTask.id task
                                         then change t else t) (remediationTasks db)\<rparr>
                   in Inr (logAudit db1
                             \<lparr>AuditLog.orgId = JwtPayload.orgId user,
                              userId = JwtPayload.userId user, action = ''TASK_STATUS_CHANGED'',
                              entityType = ''task'', entityId = RemediationTask.id task\<rparr>,
                           change task)))))"

section \<open>Reference definitions\<close>

text \<open>
  The definitions of this section are not translations of code.  They state, in the words of
  the specification, the quantities the handlers are compared with, and name the parts of a
  handler's effect that the proofs reason about.
\<close>

subsection \<open>Scoring\<close>

text \<open>The responses that count: those not answered \<open>NA\<close>.\<close>

definition assessedOf :: "ControlScore list \<Rightarrow> ControlScore list" where
  "assessedOf cs = filter (\<lambda>c. ControlScore.answer c \<noteq> ''NA'') cs"



text \<open>Rounding to two decimals, a tie at the third decimal going up.\<close>

definition round2 :: "rat \<Rightarrow> rat" where
  "round2 x = of_int \<lfloor>x * 100 + 1 / 2\<rfloor> / 100"

text \<open>The number of responses answered \<open>NO\<close> on a control of the given risk level.\<close>

definition gapsOf :: "string \<Rightarrow> ControlScore list \<Rightarrow> nat" where
  "gapsOf risk cs =
     length (filter (\<lambda>c. ControlScore.answer c = ''NO'' \<and> ControlScore.riskLevel c = risk) cs)"

text \<open>The four global gap counters of a result.\<close>

definition gapCounters :: "ScoreResult \<Rightarrow> nat \<times> nat \<times> nat \<times> nat" where
  "gapCounters r =
     (ScoreResult.criticalGaps r, ScoreResult.highGaps r, ScoreResult.mediumGaps r,
      ScoreResult.lowGaps r)"

text \<open>What one response adds to the entry of its domain.\<close>

definition addControl :: "DomainData \<Rightarrow> ControlScore \<Rightarrow> DomainData" where
  "addControl d c = d\<lparr>
     DomainData.totalPoints :=
       DomainData.totalPoints d + ControlScore.pointsYes c * ControlScore.weightMultiplier c,
     DomainData.earnedPoints :=
       DomainData.earnedPoints d + ControlScore.pointsEarned c * ControlScore.weightMultiplier c,
     DomainData.controlCount := DomainData.controlCount d + 1,
     DomainData.gapCount :=
       DomainData.gapCount d + (if ControlScore.answer c = ''NO'' then 1 else 0),
     DomainData.partialCount :=
       DomainData.partialCount d + (if ControlScore.answer c = ''PARTIAL'' then 1 else 0)\<rparr>"

definition orEmpty :: "DomainData option \<Rightarrow> DomainData" where
  "orEmpty x = (case x of None \<Rightarrow> emptyDomain | Some d \<Rightarrow> d)"

subsection \<open>Branching\<close>

text \<open>The six transfer controls of rule 3.\<close>

definition transferControls :: "string list" where
  "transferControls =
     [''PDPL-T.5'', ''PDPL-T.6'', ''PDPL-T.7'', ''PDPL-T.8'', ''PDPL-T.9'', ''HS-PDPL-013'']"

subsection \<open>Task transitions\<close>

text \<open>The transition table of the specification, on the five states.\<close>

definition allowedTransition :: "TaskStatus \<Rightarrow> TaskStatus \<Rightarrow> bool" where
  "allowedTransition old new =
     (case old of
        OPEN \<Rightarrow> new = IN_PROGRESS \<or> new = DEFERRED
      | IN_PROGRESS \<Rightarrow> new = UNDER_REVIEW \<or> new = DEFERRED
      | UNDER_REVIEW \<Rightarrow> new = CLOSED \<or> new = IN_PROGRESS \<or> new = DEFERRED
      | CLOSED \<Rightarrow> False
      | DEFERRED \<Rightarrow> new = OPEN \<or> new = IN_PROGRESS)"

text \<open>A requested status is in the table when it names a state the table allows.\<close>

definition inTable :: "TaskStatus \<Rightarrow> string \<Rightarrow> bool" where
  "inTable old requested =
     (case taskStatusOfString requested of
        None \<Rightarrow> False | Some new \<Rightarrow> allowedTransition old new)"

subsection \<open>Assessments of an organisation\<close>






subsection \<open>Responses and tasks of a pair\<close>

definition samePair :: "ident \<Rightarrow> string \<Rightarrow> Response \<Rightarrow> bool" where
  "samePair aid cid r \<longleftrightarrow> Response.assessmentId r = aid \<and> Response.controlId r = cid"

definition taskPair :: "ident \<Rightarrow> string \<Rightarrow> RemediationTask \<Rightarrow> bool" where
  "taskPair aid cid t \<longleftrightarrow>
     RemediationTask.assessmentId t = aid \<and> RemediationTask.controlId t = cid"

definition responsesFor :: "Db \<Rightarrow> ident \<Rightarrow> string \<Rightarrow> Response list" where
  "responsesFor db aid cid = filter (samePair aid cid) (responses db)"

definition tasksFor :: "Db \<Rightarrow> ident \<Rightarrow> string \<Rightarrow> RemediationTask list" where
  "tasksFor db aid cid = filter (taskPair aid cid) (remediationTasks db)"

text \<open>The task the NO/PARTIAL rule adds, if it adds one.\<close>

definition gapPart ::
  "Db \<Rightarrow> JwtPayload \<Rightarrow> instant \<Rightarrow> (instant \<Rightarrow> int \<Rightarrow> instant) \<Rightarrow> ident \<Rightarrow> string
     \<Rightarrow> ResponseBody \<Rightarrow> Control \<Rightarrow> RemediationTask list" where
  "gapPart db user now addDays aid cid body control =
     (if (ResponseBody.answer body = ''NO'' \<or> ResponseBody.answer body = ''PARTIAL'')
         \<and> findExistingTask db aid cid (JwtPayload.orgId user) = None
      then [gapTask db user now addDays aid cid (ResponseBody.answer body) control] else [])"

text \<open>The task the transfer-suspension rule adds, if it adds one.\<close>

definition urgentPart ::
  "Db \<Rightarrow> JwtPayload \<Rightarrow> instant \<Rightarrow> (instant \<Rightarrow> int \<Rightarrow> instant) \<Rightarrow> ident \<Rightarrow> string
     \<Rightarrow> ResponseBody \<Rightarrow> Control \<Rightarrow> RemediationTask list" where
  "urgentPart db user now addDays aid cid body control =
     (if startsWith cid ''PDPL-T.8'' \<and> ResponseBody.answer body = ''YES''
      then [urgentTask (db\<lparr>remediationTasks :=
                remediationTasks db @ gapPart db user now addDays aid cid body control\<rparr>)
              user now aid cid]
      else [])"

text \<open>The requests that pass every check of the response handler.\<close>

definition accepted :: "Db \<Rightarrow> JwtPayload \<Rightarrow> ident \<Rightarrow> string \<Rightarrow> ResponseBody \<Rightarrow> Control \<Rightarrow> bool" where
  "accepted db user aid cid body control \<longleftrightarrow>
     ResponseBody.answer body \<in> set [''YES'', ''PARTIAL'', ''NO'', ''NA''] \<and>
     (case findAssessment db aid (JwtPayload.orgId user) of
        None \<Rightarrow> False
      | Some a \<Rightarrow> Assessment.status a = DRAFT \<or> Assessment.status a = IN_REVIEW) \<and>
     find (\<lambda>c. Control.id c = cid) (controls db) = Some control \<and>
     (ResponseBody.answer body = ''NA'' \<longrightarrow>
        (cid \<in> set mandatoryControls \<longrightarrow>
           (case find (\<lambda>g. Organization.id g = JwtPayload.orgId user) (organizations db) of
              None \<Rightarrow> False
            | Some g \<Rightarrow> \<not> isHealthOrg (Organization.orgType g))) \<and>
        (case ResponseBody.naJustification body of None \<Rightarrow> False | Some j \<Rightarrow> 20 \<le> length j))"

section \<open>Sample data\<close>

definition sampleScores :: "ControlScore list" where
  "sampleScores =
     [\<lparr>ControlScore.controlId = ''PDPL-G.1'', domainNumber = 1, riskLevel = ''CRITICAL'',
        answer = ''YES'', pointsYes = 10, pointsPartial = 5, pointsEarned = 10,
        weightMultiplier = 3 / 2\<rparr>,
      \<lparr>ControlScore.controlId = ''PDPL-G.3'', domainNumber = 1, riskLevel = ''HIGH'',
        answer = ''PARTIAL'', pointsYes = 10, pointsPartial = 5, pointsEarned = 5,
        weightMultiplier = 1\<rparr>,
      \<lparr>ControlScore.controlId = ''PDPL-T.2'', domainNumber = 5, riskLevel = ''CRITICAL'',
        answer = ''NO'', pointsYes = 5, pointsPartial = 2, pointsEarned = 0,
        weightMultiplier = 1\<rparr>,
      \<lparr>ControlScore.controlId = ''PDPL-T.5'', domainNumber = 5, riskLevel = ''HIGH'',
        answer = ''NA'', pointsYes = 5, pointsPartial = 2, pointsEarned = 0,
        weightMultiplier = 1\<rparr>]"



definition sampleProfile :: OrgProfile where
  "sampleProfile =
     \<lparr>OrgProfile.orgType = ''private_hospital'', processesMinors = True,
      crossBorderTransfers = False, usesCloud = ''yes'', conductsResearch = False,
      usesAiOrAutomatedDecisions = False, continuousMonitoring = False\<rparr>"

definition adminUser :: JwtPayload where
  "adminUser = \<lparr>JwtPayload.userId = 10, orgId = 2, role = ''org_admin''\<rparr>"

definition staffUser :: JwtPayload where
  "staffUser = \<lparr>JwtPayload.userId = 11, orgId = 2, role = ''staff''\<rparr>"

definition sampleControl :: "string \<Rightarrow> string \<Rightarrow> Control" where
  "sampleControl cid risk =
     \<lparr>Control.id = cid, domainNumber = 1, riskLevel = risk, pointsYes = 10, pointsPartial = 5,
      weightMultiplier = 1, objectiveEn = ''Objective'', regArticles = Some ''Reg. Art. 32'',
      transferRegArticles = None, ncaRef = None, mohPolicyRef = None,
      evidenceGuidanceEn = None, responsibleRoles = [''dpo''], conditionalOn = JNull\<rparr>"

definition seedDb :: Db where
  "seedDb =
     \<lparr>organizations =
        [\<lparr>Organization.id = 2, orgType = ''private_hospital'', onboardingCompleted = True\<rparr>],
      controls =
        [sampleControl ''PDPL-G.3'' ''CRITICAL'', sampleControl ''PDPL-TR.3'' ''LOW'',
         sampleControl ''PDPL-T.8'' ''HIGH''],
      assessments = [], responses = [], remediationTasks = [], evidenceFiles = [],
      auditLogs = []\<rparr>"

text \<open>The store with one draft assessment, number 5, of organisation 2.\<close>

definition draftDb :: Db where
  "draftDb = seedDb\<lparr>assessments := [newAssessment 5 2 1 10]\<rparr>"

definition dayAdd :: "instant \<Rightarrow> int \<Rightarrow> instant" where
  "dayAdd t n = t + n * 86400000"

definition bodyOf :: "string \<Rightarrow> string option \<Rightarrow> ResponseBody" where
  "bodyOf ans just = \<lparr>ResponseBody.answer = ans, naJustification = just, notes = None\<rparr>"

text \<open>The urgent-transfer control answered YES, once and once more.\<close>

definition t8Once :: "Db \<times> Response" where
  "t8Once = writeResponse draftDb adminUser 1000 dayAdd 5 ''PDPL-T.8'' (bodyOf ''YES'' None)
              (sampleControl ''PDPL-T.8'' ''HIGH'')"

definition t8Twice :: "Db \<times> Response" where
  "t8Twice = writeResponse (fst t8Once) adminUser 2000 dayAdd 5 ''PDPL-T.8'' (bodyOf ''YES'' None)
               (sampleControl ''PDPL-T.8'' ''HIGH'')"

text \<open>The same control answered NO and then YES.\<close>

definition t8No :: "Db \<times> Response" where
  "t8No = writeResponse draftDb adminUser 1000 dayAdd 5 ''PDPL-T.8'' (bodyOf ''NO'' None)
            (sampleControl ''PDPL-T.8'' ''HIGH'')"

definition t8NoYes :: "Db \<times> Response" where
  "t8NoYes = writeResponse (fst t8No) adminUser 2000 dayAdd 5 ''PDPL-T.8'' (bodyOf ''YES'' None)
               (sampleControl ''PDPL-T.8'' ''HIGH'')"



definition sampleTask :: "ident \<Rightarrow> TaskStatus \<Rightarrow> RemediationTask" where
  "sampleTask tid st =
     \<lparr>RemediationTask.id = tid, orgId = 2, assessmentId = 5, controlId = ''PDPL-G.3'',
      gapType = ''GAP'', riskLevel = ''CRITICAL'', title = ''Implement: Objective'',
      status = st, legalBasis = ''Reg. Art. 32'', evidenceRequired = [],
      responsibleRole = Some ''dpo'', deadline = 0, evidenceRequiredForClosure = True,
      notes = None, closedAt = None, isDeleted = False\<rparr>"

definition taskDb :: Db where
  "taskDb = draftDb\<lparr>remediationTasks := [sampleTask 7 OPEN, sampleTask 8 CLOSED]\<rparr>"

definition statusBody :: "string \<Rightarrow> StatusBody" where
  "statusBody s = \<lparr>StatusBody.status = s, notes = None, rejectionNote = None\<rparr>"

text \<open>A critical and a low-risk control answered NO on the draft assessment.\<close>

definition gapOnce :: "Db \<times> Response" where
  "gapOnce = writeResponse draftDb adminUser 1000 dayAdd 5 ''PDPL-G.3'' (bodyOf ''NO'' None)
               (sampleControl ''PDPL-G.3'' ''CRITICAL'')"

definition gapTwice :: "Db \<times> Response" where
  "gapTwice = writeResponse (fst gapOnce) adminUser 2000 dayAdd 5 ''PDPL-G.3'' (bodyOf ''NO'' None)
                (sampleControl ''PDPL-G.3'' ''CRITICAL'')"

definition lowOnce :: "Db \<times> Response" where
  "lowOnce = writeResponse draftDb adminUser 1000 dayAdd 5 ''PDPL-TR.3'' (bodyOf ''NO'' None)
               (sampleControl ''PDPL-TR.3'' ''LOW'')"

section \<open>The scoring loop\<close>



lemma scoreStep_domainMap:
  "domainMap (scoreStep s c) = domainStep (domainMap s) c"
  by (simp add: scoreStep_def countGap_def Let_def)

lemma scoreStep_critical:
  "ScoreState.criticalGaps (scoreStep s c) =
     ScoreState.criticalGaps s + (if ControlScore.answer c = ''NO'' \<and> ControlScore.riskLevel c = ''CRITICAL'' then 1 else 0)"
  by (simp add: scoreStep_def countGap_def Let_def)

lemma scoreStep_high:
  "ScoreState.highGaps (scoreStep s c) =
     ScoreState.highGaps s + (if ControlScore.answer c = ''NO'' \<and> ControlScore.riskLevel c = ''HIGH'' then 1 else 0)"
  by (simp add: scoreStep_def countGap_def Let_def)

lemma scoreStep_medium:
  "ScoreState.mediumGaps (scoreStep s c) =
     ScoreState.mediumGaps s + (if ControlScore.answer c = ''NO'' \<and> ControlScore.riskLevel c = ''MEDIUM'' then 1 else 0)"
  by (simp add: scoreStep_def countGap_def Let_def)

lemma scoreStep_low:
  "ScoreState.lowGaps (scoreStep s c) =
     ScoreState.lowGaps s + (if ControlScore.answer c = ''NO'' \<and> ControlScore.riskLevel c = ''LOW'' then 1 else 0)"
  by (simp add: scoreStep_def countGap_def Let_def)



lemma loop_domainMap:
  "domainMap (foldl scoreStep s xs) = foldl domainStep (domainMap s) xs"
  by (induction xs arbitrary: s) (simp_all add: scoreStep_domainMap)

lemma loop_critical:
  "ScoreState.criticalGaps (foldl scoreStep s xs) = ScoreState.criticalGaps s + gapsOf ''CRITICAL'' xs"
  by (induction xs arbitrary: s) (simp_all add: scoreStep_critical gapsOf_def)

lemma loop_high:
  "ScoreState.highGaps (foldl scoreStep s xs) = ScoreState.highGaps s + gapsOf ''HIGH'' xs"
  by (induction xs arbitrary: s) (simp_all add: scoreStep_high gapsOf_def)

lemma loop_medium:
  "ScoreState.mediumGaps (foldl scoreStep s xs) = ScoreState.mediumGaps s + gapsOf ''MEDIUM'' xs"
  by (induction xs arbitrary: s) (simp_all add: scoreStep_medium gapsOf_def)

lemma loop_low:
  "ScoreState.lowGaps (foldl scoreStep s xs) = ScoreState.lowGaps s + gapsOf ''LOW'' xs"
  by (induction xs arbitrary: s) (simp_all add: scoreStep_low gapsOf_def)

lemma gapsOf_assessed: "gapsOf risk (assessedOf cs) = gapsOf risk cs"
  unfolding gapsOf_def assessedOf_def by (induction cs) auto




lemma calc_gaps:
  "ScoreResult.criticalGaps (calculateScores cs) = gapsOf ''CRITICAL'' cs"
  "ScoreResult.highGaps (calculateScores cs) = gapsOf ''HIGH'' cs"
  "ScoreResult.mediumGaps (calculateScores cs) = gapsOf ''MEDIUM'' cs"
  "ScoreResult.lowGaps (calculateScores cs) = gapsOf ''LOW'' cs"
  using gapsOf_assessed[of _ cs]
  by (simp_all add: calculateScores_def Let_def loop_critical loop_high loop_medium loop_low
      initialState_def assessedOf_def)

lemma round2_bounds: "round2 x \<le> x + 1 / 200 \<and> x - 1 / 200 < round2 x"
  using floor_correct [of "x * 100 + 1 / 2"] by (simp add: round2_def field_simps)




lemma round2_grid: "\<exists>k::int. round2 x = of_int k / 100"
  by (auto simp: round2_def)




lemma domainStep_update:
  "domainStep dm c =
     AList.update (ControlScore.domainNumber c)
       (addControl (orEmpty (map_of dm (ControlScore.domainNumber c))) c) dm"
proof (cases "map_of dm (ControlScore.domainNumber c)")
  case None
  then show ?thesis
    by (simp add: domainStep_def Let_def orEmpty_def addControl_def update_conv')
next
  case (Some d)
  then show ?thesis
    by (simp add: domainStep_def Let_def orEmpty_def addControl_def)
qed


lemma domainStep_distinct:
  "distinct (map fst dm) \<Longrightarrow> distinct (map fst (domainStep dm c))"
  by (simp add: domainStep_update distinct_update)

lemma domainStep_map_of:
  "map_of (domainStep dm c) k =
     (if k = ControlScore.domainNumber c then Some (addControl (orEmpty (map_of dm k)) c)
      else map_of dm k)"
  by (simp add: domainStep_update update_conv')


lemma domainLoop_distinct:
  "distinct (map fst dm) \<Longrightarrow> distinct (map fst (foldl domainStep dm xs))"
  by (induction xs arbitrary: dm) (simp_all add: domainStep_distinct)

lemma filter_no_domain:
  "k \<notin> ControlScore.domainNumber ` set xs \<Longrightarrow>
     filter (\<lambda>c. ControlScore.domainNumber c = k) xs = []"
  by (induction xs) auto

lemma domainLoop_map_of:
  "map_of (foldl domainStep dm xs) k =
     (if k \<in> ControlScore.domainNumber ` set xs
      then Some (foldl addControl (orEmpty (map_of dm k))
                   (filter (\<lambda>c. ControlScore.domainNumber c = k) xs))
      else map_of dm k)"
proof (induction xs arbitrary: dm)
  case Nil
  show ?case by simp
next
  case (Cons c xs)
  show ?case
    by (auto simp: Cons.IH domainStep_map_of orEmpty_def filter_no_domain)
qed

lemma addLoop_partial:
  "DomainData.partialCount (foldl addControl d xs) =
     DomainData.partialCount d + length (filter (\<lambda>c. ControlScore.answer c = ''PARTIAL'') xs)"
  by (induction xs arbitrary: d) (simp_all add: addControl_def)

lemma addLoop_total:
  "DomainData.totalPoints (foldl addControl d xs) =
     DomainData.totalPoints d + (\<Sum>c\<leftarrow>xs. ControlScore.pointsYes c * ControlScore.weightMultiplier c)"
  by (induction xs arbitrary: d) (simp_all add: addControl_def)


lemma calc_domainScores_set:
  "set (ScoreResult.domainScores (calculateScores cs)) =
     toDomainScore ` set (foldl domainStep [] (assessedOf cs))"
  by (simp add: calculateScores_def Let_def loop_domainMap initialState_def assessedOf_def)



lemma calc_domain_data:
  assumes "d \<in> set (ScoreResult.domainScores (calculateScores cs))"
  shows "\<exists>data. d = toDomainScore (DomainScore.domainNumber d, data) \<and>
     data = foldl addControl emptyDomain
              (filter (\<lambda>c. ControlScore.domainNumber c = DomainScore.domainNumber d) (assessedOf cs))"
proof -
  let ?dm = "foldl domainStep [] (assessedOf cs)"
  from assms obtain k data where kd: "(k, data) \<in> set ?dm" "d = toDomainScore (k, data)"
    by (auto simp: calc_domainScores_set)
  have dist: "distinct (map fst ?dm)" by (rule domainLoop_distinct) simp
  from kd(1) dist have m: "map_of ?dm k = Some data" by simp
  have k: "DomainScore.domainNumber d = k" using kd(2) by (simp add: toDomainScore_def)
  from m have "data = foldl addControl emptyDomain
              (filter (\<lambda>c. ControlScore.domainNumber c = k) (assessedOf cs))"
    by (simp add: domainLoop_map_of orEmpty_def split: if_splits)
  with kd(2) k show ?thesis by simp
qed

lemma calc_domain_partial:
  assumes "d \<in> set (ScoreResult.domainScores (calculateScores cs))"
  shows "DomainScore.partialCount d =
     length (filter (\<lambda>c. ControlScore.answer c = ''PARTIAL'' \<and> ControlScore.domainNumber c = DomainScore.domainNumber d) cs)"
proof -
  from calc_domain_data[OF assms] obtain data where
    d: "d = toDomainScore (DomainScore.domainNumber d, data)" and
    data: "data = foldl addControl emptyDomain
              (filter (\<lambda>c. ControlScore.domainNumber c = DomainScore.domainNumber d) (assessedOf cs))"
    by blast
  have "DomainScore.partialCount d = DomainData.partialCount data"
    by (subst d) (simp add: toDomainScore_def)
  also have "\<dots> = length (filter (\<lambda>c. ControlScore.answer c = ''PARTIAL'')
      (filter (\<lambda>c. ControlScore.domainNumber c = DomainScore.domainNumber d) (assessedOf cs)))"
    by (simp add: data addLoop_partial emptyDomain_def)
  also have "\<dots> = length (filter (\<lambda>c. ControlScore.answer c = ''PARTIAL'' \<and> ControlScore.domainNumber c = DomainScore.domainNumber d) cs)"
    unfolding assessedOf_def by (induction cs) auto
  finally show ?thesis .
qed

lemmas score_eval = calculateScores_def Let_def scoreStep_def countGap_def domainStep_def
  initialState_def emptyDomain_def toDomainScore_def DOMAIN_NAMES_def Math_round_def floor_eq_iff





lemma gapsOf_skip:
  "ControlScore.answer c \<noteq> ''NO'' \<Longrightarrow> gapsOf risk (xs @ c # ys) = gapsOf risk (xs @ ys)"
  by (simp add: gapsOf_def)

text \<open>
  Claim C6.  Each of the four global gap counters is the number of responses answered NO on
  a control of that risk level; a response answered PARTIAL or NA, wherever it stands in
  the list, changes none of them; a PARTIAL answer is counted in the \<open>partialCount\<close> of its
  domain.
\<close>

theorem calculateScores_gap_counters:
  "ScoreResult.criticalGaps (calculateScores cs) = gapsOf ''CRITICAL'' cs
   \<and> ScoreResult.highGaps (calculateScores cs) = gapsOf ''HIGH'' cs
   \<and> ScoreResult.mediumGaps (calculateScores cs) = gapsOf ''MEDIUM'' cs
   \<and> ScoreResult.lowGaps (calculateScores cs) = gapsOf ''LOW'' cs
   \<and> (ControlScore.answer c = ''PARTIAL'' \<or> ControlScore.answer c = ''NA''
        \<longrightarrow> gapCounters (calculateScores (xs @ c # ys)) = gapCounters (calculateScores (xs @ ys)))
   \<and> (\<forall>d\<in>set (ScoreResult.domainScores (calculateScores cs)).
         DomainScore.partialCount d
           = length (filter (\<lambda>c. ControlScore.answer c = ''PARTIAL''
                               \<and> ControlScore.domainNumber c = DomainScore.domainNumber d) cs))"
proof (intro conjI impI ballI)
  show "ScoreResult.criticalGaps (calculateScores cs) = gapsOf ''CRITICAL'' cs"
    "ScoreResult.highGaps (calculateScores cs) = gapsOf ''HIGH'' cs"
    "ScoreResult.mediumGaps (calculateScores cs) = gapsOf ''MEDIUM'' cs"
    "ScoreResult.lowGaps (calculateScores cs) = gapsOf ''LOW'' cs"
    by (rule calc_gaps)+
next
  assume "ControlScore.answer c = ''PARTIAL'' \<or> ControlScore.answer c = ''NA''"
  then have "ControlScore.answer c \<noteq> ''NO''" by auto
  then show "gapCounters (calculateScores (xs @ c # ys)) = gapCounters (calculateScores (xs @ ys))"
    by (simp add: gapCounters_def calc_gaps gapsOf_skip)
next
  fix d assume "d \<in> set (ScoreResult.domainScores (calculateScores cs))"
  then show "DomainScore.partialCount d
           = length (filter (\<lambda>c. ControlScore.answer c = ''PARTIAL''
                               \<and> ControlScore.domainNumber c = DomainScore.domainNumber d) cs)"
    by (rule calc_domain_partial)
qed

theorem calculateScores_gap_counters_witness:
  "ScoreResult.criticalGaps (calculateScores sampleScores) = 1
   \<and> ScoreResult.highGaps (calculateScores sampleScores) = 0
   \<and> ScoreResult.mediumGaps (calculateScores sampleScores) = 0
   \<and> ScoreResult.lowGaps (calculateScores sampleScores) = 0
   \<and> gapCounters (calculateScores (take 1 sampleScores @ sampleScores ! 1 # drop 2 sampleScores))
       = gapCounters (calculateScores (take 1 sampleScores @ drop 2 sampleScores))
   \<and> map DomainScore.partialCount (ScoreResult.domainScores (calculateScores sampleScores)) = [1, 0]"
proof -
  note w = calculateScores_gap_counters
    [of sampleScores "sampleScores ! 1" "take 1 sampleScores" "drop 2 sampleScores"]
  have p: "ControlScore.answer (sampleScores ! 1) = ''PARTIAL''"
    by (simp add: sampleScores_def)
  have d: "map DomainScore.domainNumber (ScoreResult.domainScores (calculateScores sampleScores)) = [1, 5]"
    by (simp add: sampleScores_def score_eval)
  then obtain d1 d5 where ds: "ScoreResult.domainScores (calculateScores sampleScores) = [d1, d5]"
    "DomainScore.domainNumber d1 = 1" "DomainScore.domainNumber d5 = 5"
    by auto
  from w ds have "DomainScore.partialCount d1
      = length (filter (\<lambda>c. ControlScore.answer c = ''PARTIAL'' \<and> ControlScore.domainNumber c = 1) sampleScores)"
    "DomainScore.partialCount d5
      = length (filter (\<lambda>c. ControlScore.answer c = ''PARTIAL'' \<and> ControlScore.domainNumber c = 5) sampleScores)"
    by simp_all
  then have "DomainScore.partialCount d1 = 1" "DomainScore.partialCount d5 = 0"
    by (simp_all add: sampleScores_def)
  then have pc: "map DomainScore.partialCount (ScoreResult.domainScores (calculateScores sampleScores)) = [1, 0]"
    unfolding ds(1) by simp
  have g: "gapsOf ''CRITICAL'' sampleScores = 1" "gapsOf ''HIGH'' sampleScores = 0"
    "gapsOf ''MEDIUM'' sampleScores = 0" "gapsOf ''LOW'' sampleScores = 0"
    by (simp_all add: gapsOf_def sampleScores_def)
  from w p g pc show ?thesis by simp
qed




section \<open>Branching rules\<close>

lemma set_setAdd: "set (setAdd s c) = insert c (set s)"
  by (auto simp: setAdd_def)

lemma set_addAll: "set (addAll s cs) = set s \<union> set cs"
  unfolding addAll_def by (induction cs arbitrary: s) (auto simp: set_setAdd)

lemma naControls_eval:
  "naControls (evaluateBranchingRules p) = (if crossBorderTransfers p then [] else transferControls)"
  by (simp add: evaluateBranchingRules_def Let_def addAll_def setAdd_def transferControls_def)

lemma mem_cond_addAll:
  "c \<in> set (if b then addAll s xs else s) \<longleftrightarrow> c \<in> set s \<or> (b \<and> c \<in> set xs)"
  by (simp add: set_addAll)

lemma activated_mem:
  "c \<in> set (activatedControls (evaluateBranchingRules p)) \<longleftrightarrow>
     (processesMinors p \<and> c \<in> set [''PDPL-G.10'', ''PDPL-R.10'']) \<or>
     (crossBorderTransfers p \<and>
        c \<in> set [''PDPL-T.5'', ''PDPL-T.6'', ''PDPL-T.7'', ''PDPL-T.8'', ''PDPL-T.9'',
                   ''HS-PDPL-013'', ''NCA-D4.R2'']) \<or>
     (OrgProfile.orgType p \<in> set HEALTH_ORG_TYPES \<and>
        c \<in> set [''PDPL-C.1'', ''HS-PDPL-001'', ''HS-PDPL-002'', ''HS-PDPL-003'', ''PDPL-G.1'']) \<or>
     ((usesCloud p = ''yes'' \<or> usesCloud p = ''partial'') \<and> c \<in> set [''PDPL-T.2'', ''NCA-D4.R2'']) \<or>
     (usesAiOrAutomatedDecisions p \<and> c \<in> set [''PDPL-G.3'', ''HS-PDPL-020''])"
proof -
  have "c \<in> set [] \<longleftrightarrow> False" by simp
  then show ?thesis
    unfolding evaluateBranchingRules_def Let_def
    by (simp only: BranchingResult.simps mem_cond_addAll disj_assoc simp_thms)
qed

lemma transfer_not_minors:
  "\<forall>c\<in>set transferControls. c \<notin> set [''PDPL-G.10'', ''PDPL-R.10'']"
  by (simp add: transferControls_def)

lemma transfer_not_mandatory:
  "\<forall>c\<in>set transferControls.
     c \<notin> set [''PDPL-C.1'', ''HS-PDPL-001'', ''HS-PDPL-002'', ''HS-PDPL-003'', ''PDPL-G.1'']"
  by (simp add: transferControls_def)

lemma transfer_not_cloud:
  "\<forall>c\<in>set transferControls. c \<notin> set [''PDPL-T.2'', ''NCA-D4.R2'']"
  by (simp add: transferControls_def)

lemma transfer_not_ai:
  "\<forall>c\<in>set transferControls. c \<notin> set [''PDPL-G.3'', ''HS-PDPL-020'']"
  by (simp add: transferControls_def)

lemma transfer_in_rule2:
  "\<forall>c\<in>set transferControls.
     c \<in> set [''PDPL-T.5'', ''PDPL-T.6'', ''PDPL-T.7'', ''PDPL-T.8'', ''PDPL-T.9'',
                ''HS-PDPL-013'', ''NCA-D4.R2'']"
  by (simp add: transferControls_def)

lemma transfer_activated_iff:
  assumes "c \<in> set transferControls"
  shows "c \<in> set (activatedControls (evaluateBranchingRules p)) \<longleftrightarrow> crossBorderTransfers p"
  unfolding activated_mem
  using assms transfer_not_minors transfer_not_mandatory transfer_not_cloud transfer_not_ai
    transfer_in_rule2
  by blast

lemma disjoint_sets:
  "set (activatedControls (evaluateBranchingRules p)) \<inter> set (naControls (evaluateBranchingRules p)) = {}"
proof (cases "crossBorderTransfers p")
  case True
  then show ?thesis by (simp add: naControls_eval)
next
  case False
  then have "\<forall>c\<in>set transferControls. c \<notin> set (activatedControls (evaluateBranchingRules p))"
    using transfer_activated_iff by blast
  with False show ?thesis by (auto simp: naControls_eval)
qed

lemma strictEquals_JStr: "strictEquals (JStr s) v \<longleftrightarrow> JStr s = v"
  by (cases v) auto

lemma strictEquals_JBool: "strictEquals (JBool b) v \<longleftrightarrow> JBool b = v"
  by (cases v) auto

lemma strictNotEquals_profile:
  "strictNotEquals (profileField p k) v \<longleftrightarrow> profileField p k \<noteq> Some v"
  by (simp add: strictNotEquals_def profileField_def strictEquals_JStr strictEquals_JBool)

lemma entriesMatch_all:
  "entriesMatch p kvs \<longleftrightarrow> (\<forall>(k, v)\<in>set kvs. profileField p k = Some v)"
  by (induction p kvs rule: entriesMatch.induct) (simp_all add: strictNotEquals_profile)

lemma applicable_obj:
  "isControlApplicable cid (JObj kvs) p br \<longleftrightarrow>
     cid \<notin> set (naControls br) \<and> (\<forall>(k, v)\<in>set kvs. profileField p k = Some v)"
  by (simp add: isControlApplicable_def entriesMatch_all)

lemma applicable_null:
  "isControlApplicable cid JNull p br \<longleftrightarrow> cid \<notin> set (naControls br)"
  by (simp add: isControlApplicable_def)

lemma applicable_activated:
  "isControlApplicable cid c p (br\<lparr>activatedControls := a\<rparr>) = isControlApplicable cid c p br"
  by (simp add: isControlApplicable_def)

text \<open>
  Claim C10.  The activated controls and the N/A controls of a profile are disjoint: the N/A
  controls are the six transfer controls when \<open>crossBorderTransfers\<close> is false and none
  otherwise, and a transfer control is activated exactly when \<open>crossBorderTransfers\<close> is
  true.
\<close>

theorem evaluateBranchingRules_disjoint:
  "set (activatedControls (evaluateBranchingRules p)) \<inter> set (naControls (evaluateBranchingRules p)) = {}
   \<and> naControls (evaluateBranchingRules p)
       = (if crossBorderTransfers p then [] else transferControls)
   \<and> (\<forall>c\<in>set transferControls.
         c \<in> set (activatedControls (evaluateBranchingRules p)) \<longleftrightarrow> crossBorderTransfers p)"
  using disjoint_sets [of p] naControls_eval [of p] transfer_activated_iff [of _ p]
  by blast

theorem evaluateBranchingRules_disjoint_witness:
  "naControls (evaluateBranchingRules sampleProfile) = transferControls
   \<and> set (activatedControls (evaluateBranchingRules sampleProfile))
       \<inter> set (naControls (evaluateBranchingRules sampleProfile)) = {}
   \<and> ''PDPL-T.8'' \<notin> set (activatedControls (evaluateBranchingRules sampleProfile))
   \<and> ''PDPL-T.8'' \<in> set (activatedControls
         (evaluateBranchingRules (sampleProfile\<lparr>crossBorderTransfers := True\<rparr>)))
   \<and> naControls (evaluateBranchingRules (sampleProfile\<lparr>crossBorderTransfers := True\<rparr>)) = []"
proof -
  have t: "''PDPL-T.8'' \<in> set transferControls" by (simp add: transferControls_def)
  have f: "\<not> crossBorderTransfers sampleProfile"
    "crossBorderTransfers (sampleProfile\<lparr>crossBorderTransfers := True\<rparr>)"
    by (simp_all add: sampleProfile_def)
  from evaluateBranchingRules_disjoint [of sampleProfile] f(1)
  have a: "naControls (evaluateBranchingRules sampleProfile) = transferControls"
    "set (activatedControls (evaluateBranchingRules sampleProfile))
       \<inter> set (naControls (evaluateBranchingRules sampleProfile)) = {}"
    "\<forall>c\<in>set transferControls. c \<notin> set (activatedControls (evaluateBranchingRules sampleProfile))"
    by auto
  from evaluateBranchingRules_disjoint [of "sampleProfile\<lparr>crossBorderTransfers := True\<rparr>"] f(2)
  have b: "naControls (evaluateBranchingRules (sampleProfile\<lparr>crossBorderTransfers := True\<rparr>)) = []"
    "\<forall>c\<in>set transferControls. c \<in> set (activatedControls
         (evaluateBranchingRules (sampleProfile\<lparr>crossBorderTransfers := True\<rparr>)))"
    by auto
  from a(3) b(2) t have
    "''PDPL-T.8'' \<notin> set (activatedControls (evaluateBranchingRules sampleProfile))"
    "''PDPL-T.8'' \<in> set (activatedControls
         (evaluateBranchingRules (sampleProfile\<lparr>crossBorderTransfers := True\<rparr>)))"
    by blast+
  with a(1,2) b(1) show ?thesis by blast
qed

text \<open>
  Claim C2.  A control listed in \<open>naControls\<close> is not applicable, whatever its condition;
  otherwise a control with a condition object is applicable exactly when every key of the
  object has, in the profile, the value the object gives it, and a control without a
  condition is applicable; the result does not depend on \<open>activatedControls\<close>.
\<close>

theorem isControlApplicable_gates:
  "(cid \<in> set (naControls br) \<longrightarrow> \<not> isControlApplicable cid cond p br)
   \<and> (isControlApplicable cid (JObj kvs) p br
        \<longleftrightarrow> cid \<notin> set (naControls br) \<and> (\<forall>(k, v)\<in>set kvs. profileField p k = Some v))
   \<and> (isControlApplicable cid JNull p br \<longleftrightarrow> cid \<notin> set (naControls br))
   \<and> isControlApplicable cid cond p (br\<lparr>activatedControls := a\<rparr>)
       = isControlApplicable cid cond p br"
proof (intro conjI impI)
  assume "cid \<in> set (naControls br)"
  then show "\<not> isControlApplicable cid cond p br" by (simp add: isControlApplicable_def)
next
  show "isControlApplicable cid (JObj kvs) p br
        \<longleftrightarrow> cid \<notin> set (naControls br) \<and> (\<forall>(k, v)\<in>set kvs. profileField p k = Some v)"
    by (rule applicable_obj)
  show "isControlApplicable cid JNull p br \<longleftrightarrow> cid \<notin> set (naControls br)"
    by (rule applicable_null)
  show "isControlApplicable cid cond p (br\<lparr>activatedControls := a\<rparr>)
       = isControlApplicable cid cond p br"
    by (rule applicable_activated)
qed

theorem isControlApplicable_gates_witness:
  "\<not> isControlApplicable ''PDPL-T.5'' (JObj [(''crossBorderTransfers'', JBool False)])
       sampleProfile (evaluateBranchingRules sampleProfile)
   \<and> isControlApplicable ''PDPL-G.10'' (JObj [(''processesMinors'', JBool True)])
       sampleProfile (evaluateBranchingRules sampleProfile)
   \<and> \<not> isControlApplicable ''PDPL-G.10''
       (JObj [(''processesMinors'', JBool True), (''usesCloud'', JStr ''no'')])
       sampleProfile (evaluateBranchingRules sampleProfile)
   \<and> isControlApplicable ''PDPL-SP.1'' JNull sampleProfile
       ((evaluateBranchingRules sampleProfile)\<lparr>activatedControls := []\<rparr>)"
proof -
  let ?br = "evaluateBranchingRules sampleProfile"
  have na: "naControls ?br = transferControls"
    by (simp add: naControls_eval sampleProfile_def)
  have m: "''PDPL-T.5'' \<in> set (naControls ?br)" "''PDPL-G.10'' \<notin> set (naControls ?br)"
    "''PDPL-SP.1'' \<notin> set (naControls ?br)"
    by (simp_all add: na transferControls_def)
  have pf: "profileField sampleProfile ''processesMinors'' = Some (JBool True)"
    "profileField sampleProfile ''usesCloud'' = Some (JStr ''yes'')"
    by (simp_all add: profileField_def sampleProfile_def)
  from isControlApplicable_gates
      [of "''PDPL-T.5''" ?br "JObj [(''crossBorderTransfers'', JBool False)]" sampleProfile] m
  have 1: "\<not> isControlApplicable ''PDPL-T.5'' (JObj [(''crossBorderTransfers'', JBool False)])
       sampleProfile ?br"
    by blast
  from isControlApplicable_gates
      [of "''PDPL-G.10''" ?br JNull sampleProfile "[(''processesMinors'', JBool True)]"] m pf
  have 2: "isControlApplicable ''PDPL-G.10'' (JObj [(''processesMinors'', JBool True)])
       sampleProfile ?br"
    by simp
  from isControlApplicable_gates
      [of "''PDPL-G.10''" ?br JNull sampleProfile
          "[(''processesMinors'', JBool True), (''usesCloud'', JStr ''no'')]"] m pf
  have 3: "\<not> isControlApplicable ''PDPL-G.10''
       (JObj [(''processesMinors'', JBool True), (''usesCloud'', JStr ''no'')]) sampleProfile ?br"
    by simp
  from isControlApplicable_gates [of "''PDPL-SP.1''" ?br JNull sampleProfile "[]" "[]"] m
  have 4: "isControlApplicable ''PDPL-SP.1'' JNull sampleProfile (?br\<lparr>activatedControls := []\<rparr>)"
    by simp
  from 1 2 3 4 show ?thesis by blast
qed

section \<open>Task transitions\<close>

lemma taskStatusOfString_simps:
  "taskStatusOfString ''OPEN'' = Some OPEN"
  "taskStatusOfString ''IN_PROGRESS'' = Some IN_PROGRESS"
  "taskStatusOfString ''UNDER_REVIEW'' = Some UNDER_REVIEW"
  "taskStatusOfString ''CLOSED'' = Some CLOSED"
  "taskStatusOfString ''DEFERRED'' = Some DEFERRED"
  by (simp_all add: taskStatusOfString_def)

lemma taskStatusOfString_Some:
  "taskStatusOfString s = Some OPEN \<longleftrightarrow> s = ''OPEN''"
  "taskStatusOfString s = Some IN_PROGRESS \<longleftrightarrow> s = ''IN_PROGRESS''"
  "taskStatusOfString s = Some UNDER_REVIEW \<longleftrightarrow> s = ''UNDER_REVIEW''"
  "taskStatusOfString s = Some CLOSED \<longleftrightarrow> s = ''CLOSED''"
  "taskStatusOfString s = Some DEFERRED \<longleftrightarrow> s = ''DEFERRED''"
  by (simp_all add: taskStatusOfString_def)

lemma validTransitions_inTable:
  "requested \<in> set (validTransitions old) \<longleftrightarrow> inTable old requested"
proof (cases "taskStatusOfString requested")
  case None
  then have "requested \<noteq> ''OPEN''" "requested \<noteq> ''IN_PROGRESS''" "requested \<noteq> ''UNDER_REVIEW''"
    "requested \<noteq> ''CLOSED''" "requested \<noteq> ''DEFERRED''"
    using taskStatusOfString_simps by auto
  with None show ?thesis
    by (cases old) (simp_all add: validTransitions_def inTable_def)
next
  case (Some new)
  then show ?thesis
    using taskStatusOfString_Some[of requested]
    by (cases old; cases new) (simp_all add: validTransitions_def inTable_def allowedTransition_def)
qed

lemma changeTaskStatus_outside:
  assumes "findTask db tid (JwtPayload.orgId user) = Some task"
      and "\<not> inTable (RemediationTask.status task) (StatusBody.status body)"
  shows "changeTaskStatus db user now tid body = Inl (422, ''INVALID_TRANSITION'')"
  using assms by (simp add: changeTaskStatus_def Let_def validTransitions_inTable)

lemma changeTaskStatus_inside:
  assumes "findTask db tid (JwtPayload.orgId user) = Some task"
      and "inTable (RemediationTask.status task) (StatusBody.status body)"
  shows "changeTaskStatus db user now tid body \<noteq> Inl (422, ''INVALID_TRANSITION'')"
  using assms
  by (simp add: changeTaskStatus_def Let_def validTransitions_inTable split: option.splits)

lemma changeTaskStatus_success:
  assumes "findTask db tid (JwtPayload.orgId user) = Some task"
      and "changeTaskStatus db user now tid body = Inr res"
  shows "inTable (RemediationTask.status task) (StatusBody.status body)"
proof (rule ccontr)
  assume "\<not> inTable (RemediationTask.status task) (StatusBody.status body)"
  from changeTaskStatus_outside[OF assms(1) this] assms(2) show False by simp
qed

lemma changeTaskStatus_new_status:
  assumes "findTask db tid (JwtPayload.orgId user) = Some task"
      and "changeTaskStatus db user now tid body = Inr (db', t')"
  shows "taskStatusOfString (StatusBody.status body) = Some (RemediationTask.status t')"
  using assms
  by (simp add: changeTaskStatus_def Let_def split: if_splits option.splits) auto

text \<open>
  Claim C5.  For a task that is found, a change of status succeeds only when the pair of the
  current and the requested status is in the table OPEN to IN_PROGRESS or DEFERRED,
  IN_PROGRESS to UNDER_REVIEW or DEFERRED, UNDER_REVIEW to CLOSED, IN_PROGRESS or
  DEFERRED, CLOSED to nothing, DEFERRED to OPEN or IN_PROGRESS, and then the task takes
  the requested status; for every pair outside the table the request fails with status 422
  and code INVALID_TRANSITION, and for no pair inside it; so nothing succeeds from CLOSED,
  and OPEN to CLOSED fails.
\<close>

theorem changeTaskStatus_transition_table:
  assumes "findTask db tid (JwtPayload.orgId user) = Some task"
  shows "(\<forall>res. changeTaskStatus db user now tid body = Inr res
            \<longrightarrow> inTable (RemediationTask.status task) (StatusBody.status body)
              \<and> taskStatusOfString (StatusBody.status body)
                  = Some (RemediationTask.status (snd res)))
       \<and> (\<not> inTable (RemediationTask.status task) (StatusBody.status body)
            \<longrightarrow> changeTaskStatus db user now tid body = Inl (422, ''INVALID_TRANSITION''))
       \<and> (inTable (RemediationTask.status task) (StatusBody.status body)
            \<longrightarrow> changeTaskStatus db user now tid body \<noteq> Inl (422, ''INVALID_TRANSITION''))
       \<and> (RemediationTask.status task = CLOSED
            \<longrightarrow> changeTaskStatus db user now tid body = Inl (422, ''INVALID_TRANSITION''))
       \<and> (RemediationTask.status task = OPEN \<and> StatusBody.status body = ''CLOSED''
            \<longrightarrow> changeTaskStatus db user now tid body = Inl (422, ''INVALID_TRANSITION''))"
proof (intro conjI allI impI)
  fix res assume r: "changeTaskStatus db user now tid body = Inr res"
  from changeTaskStatus_success[OF assms r]
  show "inTable (RemediationTask.status task) (StatusBody.status body)" .
  from r have "changeTaskStatus db user now tid body = Inr (fst res, snd res)" by simp
  from changeTaskStatus_new_status[OF assms this]
  show "taskStatusOfString (StatusBody.status body) = Some (RemediationTask.status (snd res))" .
next
  assume "\<not> inTable (RemediationTask.status task) (StatusBody.status body)"
  from changeTaskStatus_outside[OF assms this]
  show "changeTaskStatus db user now tid body = Inl (422, ''INVALID_TRANSITION'')" .
next
  assume "inTable (RemediationTask.status task) (StatusBody.status body)"
  from changeTaskStatus_inside[OF assms this]
  show "changeTaskStatus db user now tid body \<noteq> Inl (422, ''INVALID_TRANSITION'')" .
next
  assume "RemediationTask.status task = CLOSED"
  then have "\<not> inTable (RemediationTask.status task) (StatusBody.status body)"
    by (simp add: inTable_def allowedTransition_def split: option.splits)
  from changeTaskStatus_outside[OF assms this]
  show "changeTaskStatus db user now tid body = Inl (422, ''INVALID_TRANSITION'')" .
next
  assume "RemediationTask.status task = OPEN \<and> StatusBody.status body = ''CLOSED''"
  then have "\<not> inTable (RemediationTask.status task) (StatusBody.status body)"
    by (simp add: inTable_def allowedTransition_def taskStatusOfString_simps)
  from changeTaskStatus_outside[OF assms this]
  show "changeTaskStatus db user now tid body = Inl (422, ''INVALID_TRANSITION'')" .
qed

theorem changeTaskStatus_transition_table_witness:
  "changeTaskStatus taskDb staffUser 5 7 (statusBody ''CLOSED'') = Inl (422, ''INVALID_TRANSITION'')
   \<and> changeTaskStatus taskDb staffUser 5 8 (statusBody ''OPEN'') = Inl (422, ''INVALID_TRANSITION'')
   \<and> changeTaskStatus taskDb staffUser 5 7 (statusBody ''IN_PROGRESS'')
       \<noteq> Inl (422, ''INVALID_TRANSITION'')
   \<and> \<not> isl (changeTaskStatus taskDb staffUser 5 7 (statusBody ''IN_PROGRESS''))"
proof -
  have f1: "findTask taskDb 7 (JwtPayload.orgId staffUser) = Some (sampleTask 7 OPEN)"
    and f2: "findTask taskDb 8 (JwtPayload.orgId staffUser) = Some (sampleTask 8 CLOSED)"
    by (simp_all add: findTask_def taskDb_def staffUser_def sampleTask_def)
  have s: "RemediationTask.status (sampleTask 7 OPEN) = OPEN"
    "RemediationTask.status (sampleTask 8 CLOSED) = CLOSED"
    "StatusBody.status (statusBody x) = x" for x
    by (simp_all add: sampleTask_def statusBody_def)
  have i: "inTable OPEN ''IN_PROGRESS''"
    by (simp add: inTable_def allowedTransition_def taskStatusOfString_simps)
  have ok: "\<not> isl (changeTaskStatus taskDb staffUser 5 7 (statusBody ''IN_PROGRESS''))"
    by (simp add: changeTaskStatus_def Let_def findTask_def taskDb_def staffUser_def
        sampleTask_def statusBody_def validTransitions_def falsy_def taskStatusOfString_simps)
  from changeTaskStatus_transition_table [OF f1, of 5 "statusBody ''CLOSED''"]
    changeTaskStatus_transition_table [OF f2, of 5 "statusBody ''OPEN''"]
    changeTaskStatus_transition_table [OF f1, of 5 "statusBody ''IN_PROGRESS''"] s i ok
  show ?thesis by simp
qed

section \<open>One active assessment per organisation\<close>




































section \<open>Submitting a response\<close>

lemma upsert_frame:
  "remediationTasks (fst (upsertResponse db user now aid cid body points e)) = remediationTasks db"
  "assessments (fst (upsertResponse db user now aid cid body points e)) = assessments db"
  "controls (fst (upsertResponse db user now aid cid body points e)) = controls db"
  "organizations (fst (upsertResponse db user now aid cid body points e)) = organizations db"
  by (simp_all add: upsertResponse_def Let_def split: option.splits)

lemma findResponse_None: "findResponse db aid cid = None \<longleftrightarrow> responsesFor db aid cid = []"
  by (auto simp: findResponse_def responsesFor_def samePair_def find_None_iff filter_empty_conv)

lemma upsert_responsesFor:
  "length (responsesFor (fst (upsertResponse db user now aid cid body points (findResponse db aid cid))) aid cid)
     = (if responsesFor db aid cid = [] then 1 else length (responsesFor db aid cid))"
proof (cases "findResponse db aid cid")
  case None
  then show ?thesis
    using findResponse_None[of db aid cid]
    by (simp add: upsertResponse_def Let_def responsesFor_def samePair_def)
next
  case (Some e)
  then have ne: "responsesFor db aid cid \<noteq> []" using findResponse_None[of db aid cid] by simp
  let ?g = "updatedResponse user now body points"
  have "filter (samePair aid cid) (map (\<lambda>r. if Response.id r = Response.id e then ?g r else r) rows)
        = map (\<lambda>r. if Response.id r = Response.id e then ?g r else r) (filter (samePair aid cid) rows)"
    for rows
    by (induction rows) (auto simp: samePair_def updatedResponse_def)
  then show ?thesis
    using Some ne
    by (simp add: upsertResponse_def responsesFor_def)
qed

lemma write_frame:
  "assessments (fst (writeResponse db user now addDays aid cid body control)) = assessments db"
  "controls (fst (writeResponse db user now addDays aid cid body control)) = controls db"
  "organizations (fst (writeResponse db user now addDays aid cid body control)) = organizations db"
  by (simp_all add: writeResponse_def Let_def logAudit_def createTask_def upsert_frame split: option.splits)

lemma write_responses:
  "responses (fst (writeResponse db user now addDays aid cid body control)) =
     responses (fst (upsertResponse db user now aid cid body
        (getPointsForAnswer (ResponseBody.answer body) (Control.pointsYes control) (Control.pointsPartial control))
        (findResponse db aid cid)))"
  by (simp add: writeResponse_def Let_def logAudit_def createTask_def split: option.splits)

lemma findExistingTask_upsert:
  "findExistingTask (fst (upsertResponse db user now aid cid body points e)) aid' cid' org
     = findExistingTask db aid' cid' org"
  by (simp add: findExistingTask_def upsert_frame)

lemma gapTask_upsert:
  "gapTask (fst (upsertResponse db user' now' aid' cid' body points e)) user now addDays aid cid ans control
     = gapTask db user now addDays aid cid ans control"
  by (simp add: gapTask_def upsert_frame)

lemma urgentTask_cong:
  "remediationTasks db1 = remediationTasks db \<Longrightarrow>
     urgentTask db1 user now aid cid = urgentTask db user now aid cid"
  by (simp add: urgentTask_def)

lemma write_tasks:
  "remediationTasks (fst (writeResponse db user now addDays aid cid body control)) =
     remediationTasks db @ gapPart db user now addDays aid cid body control
       @ urgentPart db user now addDays aid cid body control"
proof (cases "startsWith cid ''PDPL-T.8'' \<and> ResponseBody.answer body = ''YES''")
  case True
  then have g: "gapPart db user now addDays aid cid body control = []"
    by (simp add: gapPart_def)
  have "urgentTask (fst (upsertResponse db user now aid cid body points e)) user now aid cid
      = urgentTask (db\<lparr>remediationTasks := remediationTasks db\<rparr>) user now aid cid" for points e
    by (rule urgentTask_cong) (simp add: upsert_frame)
  with True g show ?thesis
    by (simp add: writeResponse_def Let_def logAudit_def createTask_def urgentPart_def upsert_frame)
next
  case False
  then show ?thesis
    by (auto simp: writeResponse_def Let_def logAudit_def createTask_def gapPart_def urgentPart_def
        upsert_frame findExistingTask_upsert gapTask_upsert split: option.splits)
qed

lemma submitResponse_accepted:
  "accepted db user aid cid body control \<Longrightarrow>
     submitResponse db user now addDays aid cid body
       = Inr (writeResponse db user now addDays aid cid body control)"
  by (auto simp: accepted_def submitResponse_def Let_def split: option.splits)

lemma submitResponse_Inr:
  assumes "submitResponse db user now addDays aid cid body = Inr res"
  shows "\<exists>control. accepted db user aid cid body control \<and>
           res = writeResponse db user now addDays aid cid body control"
  using assms
  by (auto simp: accepted_def submitResponse_def Let_def split: option.splits if_splits)

lemma accepted_frame:
  assumes "assessments db1 = assessments db" "controls db1 = controls db"
    "organizations db1 = organizations db"
  shows "accepted db1 user aid cid body control = accepted db user aid cid body control"
  by (simp add: accepted_def findAssessment_def assms)

lemma find_append_Some:
  "find P xs \<noteq> None \<or> (\<exists>y\<in>set ys. P y) \<Longrightarrow> find P (xs @ ys) \<noteq> None"
  by (auto simp: find_None_iff)

lemma gapTask_matches:
  "RemediationTask.assessmentId (gapTask db user now addDays aid cid ans control) = aid"
  "RemediationTask.controlId (gapTask db user now addDays aid cid ans control) = cid"
  "RemediationTask.orgId (gapTask db user now addDays aid cid ans control) = JwtPayload.orgId user"
  "\<not> RemediationTask.isDeleted (gapTask db user now addDays aid cid ans control)"
  by (simp_all add: gapTask_def Let_def)

lemma existing_after_write:
  assumes "ResponseBody.answer body = ''NO'' \<or> ResponseBody.answer body = ''PARTIAL''"
  shows "findExistingTask (fst (writeResponse db user now addDays aid cid body control)) aid cid
           (JwtPayload.orgId user) \<noteq> None"
proof (cases "findExistingTask db aid cid (JwtPayload.orgId user)")
  case None
  with assms have "gapPart db user now addDays aid cid body control
      = [gapTask db user now addDays aid cid (ResponseBody.answer body) control]"
    by (simp add: gapPart_def)
  then show ?thesis
    unfolding findExistingTask_def write_tasks
    by (intro find_append_Some) (simp add: gapTask_matches)
next
  case (Some t)
  then show ?thesis
    unfolding findExistingTask_def write_tasks
    by (intro find_append_Some) simp
qed

lemma second_write_tasks:
  assumes "\<not> (startsWith cid ''PDPL-T.8'' \<and> ResponseBody.answer body = ''YES'')"
  shows "remediationTasks (fst (writeResponse
            (fst (writeResponse db user now addDays aid cid body control))
            user now' addDays aid cid body control'))
         = remediationTasks (fst (writeResponse db user now addDays aid cid body control))"
proof -
  let ?db1 = "fst (writeResponse db user now addDays aid cid body control)"
  have "gapPart ?db1 user now' addDays aid cid body control' = []"
    using existing_after_write[of body db user now addDays aid cid control]
    by (auto simp: gapPart_def)
  moreover have "urgentPart ?db1 user now' addDays aid cid body control' = []"
    using assms by (simp add: urgentPart_def)
  ultimately show ?thesis by (simp add: write_tasks)
qed

lemma write_responsesFor:
  "length (responsesFor (fst (writeResponse db user now addDays aid cid body control)) aid cid)
     = (if responsesFor db aid cid = [] then 1 else length (responsesFor db aid cid))"
  using upsert_responsesFor[of db user now aid cid body]
  by (simp add: responsesFor_def write_responses)

lemma resubmission:
  assumes first: "submitResponse db user now addDays aid cid body = Inr (db1, r1)"
  shows "\<exists>db2 r2. submitResponse db1 user now' addDays aid cid body = Inr (db2, r2)
      \<and> length (responsesFor db1 aid cid)
          = (if responsesFor db aid cid = [] then 1 else length (responsesFor db aid cid))
      \<and> length (responsesFor db2 aid cid) = length (responsesFor db1 aid cid)
      \<and> (length (responsesFor db aid cid) \<le> 1 \<longrightarrow> length (responsesFor db2 aid cid) = 1)
      \<and> (\<not> (startsWith cid ''PDPL-T.8'' \<and> ResponseBody.answer body = ''YES'')
           \<longrightarrow> remediationTasks db2 = remediationTasks db1)"
proof -
  from submitResponse_Inr[OF first] obtain control
    where acc: "accepted db user aid cid body control"
      and w1: "(db1, r1) = writeResponse db user now addDays aid cid body control"
    by blast
  have db1: "db1 = fst (writeResponse db user now addDays aid cid body control)"
    by (simp add: w1[symmetric])
  have acc1: "accepted db1 user aid cid body control"
    unfolding db1 using acc
    by (simp only: accepted_frame[OF write_frame(1) write_frame(2) write_frame(3)])
  let ?w2 = "writeResponse db1 user now' addDays aid cid body control"
  have s2: "submitResponse db1 user now' addDays aid cid body = Inr (fst ?w2, snd ?w2)"
    using submitResponse_accepted[OF acc1] by simp
  have l1: "length (responsesFor db1 aid cid)
          = (if responsesFor db aid cid = [] then 1 else length (responsesFor db aid cid))"
    unfolding db1 by (rule write_responsesFor)
  have ne: "responsesFor db1 aid cid \<noteq> []"
  proof
    assume "responsesFor db1 aid cid = []"
    then have "length (responsesFor db1 aid cid) = 0" by simp
    with l1 show False by (simp split: if_splits)
  qed
  have "length (responsesFor (fst ?w2) aid cid)
      = (if responsesFor db1 aid cid = [] then 1 else length (responsesFor db1 aid cid))"
    by (rule write_responsesFor)
  with ne have l2: "length (responsesFor (fst ?w2) aid cid) = length (responsesFor db1 aid cid)"
    by simp
  have l3: "length (responsesFor db aid cid) \<le> 1 \<longrightarrow> length (responsesFor (fst ?w2) aid cid) = 1"
  proof
    assume le: "length (responsesFor db aid cid) \<le> 1"
    have "length (responsesFor db1 aid cid) = 1"
    proof (cases "responsesFor db aid cid = []")
      case True
      with l1 show ?thesis by simp
    next
      case False
      then have "length (responsesFor db aid cid) \<noteq> 0" by simp
      with le have "length (responsesFor db aid cid) = 1" by linarith
      with l1 False show ?thesis by simp
    qed
    with l2 show "length (responsesFor (fst ?w2) aid cid) = 1" by simp
  qed
  have t: "\<not> (startsWith cid ''PDPL-T.8'' \<and> ResponseBody.answer body = ''YES'')
           \<longrightarrow> remediationTasks (fst ?w2) = remediationTasks db1"
    unfolding db1 by (rule impI) (rule second_write_tasks)
  show ?thesis
    by (rule exI[of _ "fst ?w2"], rule exI[of _ "snd ?w2"]) (intro conjI s2 l1 l2 l3 t)
qed

lemma gap_task_created:
  assumes acc: "accepted db user aid cid body control"
    and ans: "ResponseBody.answer body = ''NO'' \<or> ResponseBody.answer body = ''PARTIAL''"
    and none: "\<forall>t\<in>set (remediationTasks db).
                 \<not> (RemediationTask.assessmentId t = aid \<and> RemediationTask.controlId t = cid)"
  shows "\<exists>db' r t. submitResponse db user now addDays aid cid body = Inr (db', r)
      \<and> remediationTasks db' = remediationTasks db @ [t]
      \<and> RemediationTask.assessmentId t = aid \<and> RemediationTask.controlId t = cid
      \<and> RemediationTask.status t = OPEN
      \<and> RemediationTask.riskLevel t = Control.riskLevel control
      \<and> gapType t = (if ResponseBody.answer body = ''NO'' then ''GAP'' else ''PARTIAL'')
      \<and> deadline t = addDays now (getDefaultDeadlineDays (Control.riskLevel control))
      \<and> evidenceRequiredForClosure t
          = (Control.riskLevel control = ''CRITICAL'' \<or> Control.riskLevel control = ''HIGH'')"
proof -
  let ?w = "writeResponse db user now addDays aid cid body control"
  let ?t = "gapTask db user now addDays aid cid (ResponseBody.answer body) control"
  have s: "submitResponse db user now addDays aid cid body = Inr (fst ?w, snd ?w)"
    using submitResponse_accepted[OF acc] by simp
  from none have "findExistingTask db aid cid (JwtPayload.orgId user) = None"
    by (auto simp: findExistingTask_def find_None_iff)
  with ans have g: "gapPart db user now addDays aid cid body control = [?t]"
    by (simp add: gapPart_def)
  from ans have u: "urgentPart db user now addDays aid cid body control = []"
    by (auto simp: urgentPart_def)
  have tasks: "remediationTasks (fst ?w) = remediationTasks db @ [?t]"
    by (simp add: write_tasks g u)
  have props: "RemediationTask.assessmentId ?t = aid \<and> RemediationTask.controlId ?t = cid
      \<and> RemediationTask.status ?t = OPEN
      \<and> RemediationTask.riskLevel ?t = Control.riskLevel control
      \<and> gapType ?t = (if ResponseBody.answer body = ''NO'' then ''GAP'' else ''PARTIAL'')
      \<and> deadline ?t = addDays now (getDefaultDeadlineDays (Control.riskLevel control))
      \<and> evidenceRequiredForClosure ?t
          = (Control.riskLevel control = ''CRITICAL'' \<or> Control.riskLevel control = ''HIGH'')"
    by (simp add: gapTask_def Let_def)
  from s tasks props show ?thesis by blast
qed





lemma same_result_fst: "x = Inr (a, b) \<Longrightarrow> x = Inr p \<Longrightarrow> a = fst p"
  by (cases p) auto

lemma urgentTask_matches:
  "RemediationTask.assessmentId (urgentTask db user now aid cid) = aid"
  "RemediationTask.controlId (urgentTask db user now aid cid) = cid"
  by (simp_all add: urgentTask_def)

lemma gapPart_pair:
  "filter (taskPair aid cid) (gapPart db user now addDays aid cid body control)
     = gapPart db user now addDays aid cid body control"
  by (simp add: gapPart_def taskPair_def gapTask_matches)

lemma urgentPart_pair:
  "filter (taskPair aid cid) (urgentPart db user now addDays aid cid body control)
     = urgentPart db user now addDays aid cid body control"
  by (simp add: urgentPart_def taskPair_def urgentTask_matches)

lemma tasksFor_write:
  "tasksFor (fst (writeResponse db user now addDays aid cid body control)) aid cid
     = tasksFor db aid cid @ gapPart db user now addDays aid cid body control
         @ urgentPart db user now addDays aid cid body control"
  by (simp add: tasksFor_def write_tasks gapPart_pair urgentPart_pair)

lemma gapPart_length: "length (gapPart db user now addDays aid cid body control) \<le> 1"
  by (simp add: gapPart_def)

lemma first_write_tasks:
  assumes "\<not> (startsWith cid ''PDPL-T.8'' \<and> ResponseBody.answer body = ''YES'')"
  shows "length (remediationTasks (fst (writeResponse db user now addDays aid cid body control)))
           \<le> length (remediationTasks db) + 1"
    and "findExistingTask db aid cid (JwtPayload.orgId user) \<noteq> None \<Longrightarrow>
           remediationTasks (fst (writeResponse db user now addDays aid cid body control))
             = remediationTasks db"
proof -
  have u: "urgentPart db user now addDays aid cid body control = []"
    using assms by (simp add: urgentPart_def)
  show "length (remediationTasks (fst (writeResponse db user now addDays aid cid body control)))
           \<le> length (remediationTasks db) + 1"
    using gapPart_length[of db user now addDays aid cid body control]
    by (simp add: write_tasks u)
  assume "findExistingTask db aid cid (JwtPayload.orgId user) \<noteq> None"
  then have "gapPart db user now addDays aid cid body control = []"
    by (simp add: gapPart_def)
  then show "remediationTasks (fst (writeResponse db user now addDays aid cid body control))
             = remediationTasks db"
    by (simp add: write_tasks u)
qed

lemma draftDb_assessment:
  "findAssessment draftDb 5 (JwtPayload.orgId adminUser) = Some (newAssessment 5 2 1 10)"
  by (simp add: findAssessment_def draftDb_def seedDb_def adminUser_def newAssessment_def)

lemma draftDb_controls:
  "find (\<lambda>c. Control.id c = ''PDPL-G.3'') (controls draftDb) = Some (sampleControl ''PDPL-G.3'' ''CRITICAL'')"
  "find (\<lambda>c. Control.id c = ''PDPL-TR.3'') (controls draftDb) = Some (sampleControl ''PDPL-TR.3'' ''LOW'')"
  "find (\<lambda>c. Control.id c = ''PDPL-T.8'') (controls draftDb) = Some (sampleControl ''PDPL-T.8'' ''HIGH'')"
  by (simp_all add: draftDb_def seedDb_def sampleControl_def)

lemma draftDb_accepted:
  "accepted draftDb adminUser 5 ''PDPL-G.3'' (bodyOf ''NO'' None) (sampleControl ''PDPL-G.3'' ''CRITICAL'')"
  "accepted draftDb adminUser 5 ''PDPL-TR.3'' (bodyOf ''NO'' None) (sampleControl ''PDPL-TR.3'' ''LOW'')"
  "accepted draftDb adminUser 5 ''PDPL-T.8'' (bodyOf ''YES'' None) (sampleControl ''PDPL-T.8'' ''HIGH'')"
  by (simp_all add: accepted_def draftDb_assessment draftDb_controls bodyOf_def newAssessment_def)

lemma draftDb_empty:
  "remediationTasks draftDb = []" "responses draftDb = []"
  by (simp_all add: draftDb_def seedDb_def)

text \<open>
  Claim C3, as amended.  After a response is submitted, submitting the same control and
  answer again for the same assessment succeeds and leaves the number of Response rows of
  the pair unchanged: exactly one, when there was at most one before the first submission.
  Unless the control identifier starts with \<open>PDPL-T.8\<close> and the answer is YES, the second
  submission creates no task, the first creates at most one, and none when the
  organisation already has a task, not deleted, for the pair.
\<close>

theorem submitResponse_resubmission:
  assumes "submitResponse db user now addDays aid cid body = Inr (db1, r1)"
  shows "\<exists>db2 r2. submitResponse db1 user now' addDays aid cid body = Inr (db2, r2)
      \<and> length (responsesFor db2 aid cid) = length (responsesFor db1 aid cid)
      \<and> (length (responsesFor db aid cid) \<le> 1
           \<longrightarrow> length (responsesFor db1 aid cid) = 1 \<and> length (responsesFor db2 aid cid) = 1)
      \<and> (\<not> (startsWith cid ''PDPL-T.8'' \<and> ResponseBody.answer body = ''YES'')
           \<longrightarrow> remediationTasks db2 = remediationTasks db1
             \<and> length (remediationTasks db1) \<le> length (remediationTasks db) + 1
             \<and> (findExistingTask db aid cid (JwtPayload.orgId user) \<noteq> None
                  \<longrightarrow> remediationTasks db1 = remediationTasks db))"
proof -
  from resubmission[OF assms, of now'] obtain db2 r2
    where s2: "submitResponse db1 user now' addDays aid cid body = Inr (db2, r2)"
      and l1: "length (responsesFor db1 aid cid)
          = (if responsesFor db aid cid = [] then 1 else length (responsesFor db aid cid))"
      and l2: "length (responsesFor db2 aid cid) = length (responsesFor db1 aid cid)"
      and l3: "length (responsesFor db aid cid) \<le> 1 \<longrightarrow> length (responsesFor db2 aid cid) = 1"
      and t2: "\<not> (startsWith cid ''PDPL-T.8'' \<and> ResponseBody.answer body = ''YES'')
           \<longrightarrow> remediationTasks db2 = remediationTasks db1"
    by blast
  from submitResponse_Inr[OF assms] obtain control
    where w1: "(db1, r1) = writeResponse db user now addDays aid cid body control"
    by blast
  have db1: "db1 = fst (writeResponse db user now addDays aid cid body control)"
    by (simp add: w1[symmetric])
  have t1: "\<not> (startsWith cid ''PDPL-T.8'' \<and> ResponseBody.answer body = ''YES'')
           \<longrightarrow> length (remediationTasks db1) \<le> length (remediationTasks db) + 1
             \<and> (findExistingTask db aid cid (JwtPayload.orgId user) \<noteq> None
                  \<longrightarrow> remediationTasks db1 = remediationTasks db)"
    unfolding db1 using first_write_tasks by blast
  have l4: "length (responsesFor db aid cid) \<le> 1
           \<longrightarrow> length (responsesFor db1 aid cid) = 1 \<and> length (responsesFor db2 aid cid) = 1"
    using l2 l3 by simp
  from t1 t2 have t: "\<not> (startsWith cid ''PDPL-T.8'' \<and> ResponseBody.answer body = ''YES'')
           \<longrightarrow> remediationTasks db2 = remediationTasks db1
             \<and> length (remediationTasks db1) \<le> length (remediationTasks db) + 1
             \<and> (findExistingTask db aid cid (JwtPayload.orgId user) \<noteq> None
                  \<longrightarrow> remediationTasks db1 = remediationTasks db)"
    by blast
  show ?thesis
    by (rule exI[of _ db2], rule exI[of _ r2]) (intro conjI s2 l2 l4 t)
qed

theorem submitResponse_resubmission_witness:
  "submitResponse draftDb adminUser 1000 dayAdd 5 ''PDPL-G.3'' (bodyOf ''NO'' None) = Inr gapOnce
   \<and> submitResponse (fst gapOnce) adminUser 2000 dayAdd 5 ''PDPL-G.3'' (bodyOf ''NO'' None)
       = Inr gapTwice
   \<and> length (remediationTasks (fst gapOnce)) = 1
   \<and> remediationTasks (fst gapTwice) = remediationTasks (fst gapOnce)
   \<and> length (responsesFor (fst gapTwice) 5 ''PDPL-G.3'') = 1"
proof -
  let ?body = "bodyOf ''NO'' None"
  let ?control = "sampleControl ''PDPL-G.3'' ''CRITICAL''"
  have s1: "submitResponse draftDb adminUser 1000 dayAdd 5 ''PDPL-G.3'' ?body = Inr gapOnce"
    unfolding gapOnce_def by (rule submitResponse_accepted[OF draftDb_accepted(1)])
  have "accepted (fst gapOnce) adminUser 5 ''PDPL-G.3'' ?body ?control"
    unfolding gapOnce_def using draftDb_accepted(1)
    by (simp only: accepted_frame[OF write_frame(1) write_frame(2) write_frame(3)])
  then have s2: "submitResponse (fst gapOnce) adminUser 2000 dayAdd 5 ''PDPL-G.3'' ?body = Inr gapTwice"
    unfolding gapTwice_def by (rule submitResponse_accepted)
  from s1 have s1': "submitResponse draftDb adminUser 1000 dayAdd 5 ''PDPL-G.3'' ?body
      = Inr (fst gapOnce, snd gapOnce)"
    by simp
  have nt8: "\<not> (startsWith ''PDPL-G.3'' ''PDPL-T.8'' \<and> ResponseBody.answer ?body = ''YES'')"
    by (simp add: bodyOf_def)
  have r0: "length (responsesFor draftDb 5 ''PDPL-G.3'') \<le> 1"
    by (simp add: responsesFor_def draftDb_empty)
  from submitResponse_resubmission[OF s1', of 2000] obtain db2 r2
    where x: "submitResponse (fst gapOnce) adminUser 2000 dayAdd 5 ''PDPL-G.3'' ?body = Inr (db2, r2)"
      and y: "length (responsesFor draftDb 5 ''PDPL-G.3'') \<le> 1
           \<longrightarrow> length (responsesFor (fst gapOnce) 5 ''PDPL-G.3'') = 1
             \<and> length (responsesFor db2 5 ''PDPL-G.3'') = 1"
      and z: "\<not> (startsWith ''PDPL-G.3'' ''PDPL-T.8'' \<and> ResponseBody.answer ?body = ''YES'')
           \<longrightarrow> remediationTasks db2 = remediationTasks (fst gapOnce)
             \<and> length (remediationTasks (fst gapOnce)) \<le> length (remediationTasks draftDb) + 1
             \<and> (findExistingTask draftDb 5 ''PDPL-G.3'' (JwtPayload.orgId adminUser) \<noteq> None
                  \<longrightarrow> remediationTasks (fst gapOnce) = remediationTasks draftDb)"
    by blast
  from x s2 have db2: "db2 = fst gapTwice" by (rule same_result_fst)
  have one: "length (remediationTasks (fst gapOnce)) = 1"
    unfolding gapOnce_def
    by (simp add: write_tasks gapPart_def urgentPart_def findExistingTask_def draftDb_empty
        bodyOf_def)
  from y r0 z nt8 db2 one s1 s2 show ?thesis by simp
qed

lemma draftDb_accepted_no:
  "accepted draftDb adminUser 5 ''PDPL-T.8'' (bodyOf ''NO'' None) (sampleControl ''PDPL-T.8'' ''HIGH'')"
  by (simp add: accepted_def draftDb_assessment draftDb_controls bodyOf_def newAssessment_def)

text \<open>
  Claim C3 as stated fails: the control \<open>PDPL-T.8\<close> answered YES twice leaves one Response
  row and two tasks for the pair, the second created by the second submission; answered NO
  and then YES it also has two tasks, one of each rule.
\<close>

theorem transfer_suspension_yes_twice:
  "submitResponse draftDb adminUser 1000 dayAdd 5 ''PDPL-T.8'' (bodyOf ''YES'' None) = Inr t8Once
   \<and> submitResponse (fst t8Once) adminUser 2000 dayAdd 5 ''PDPL-T.8'' (bodyOf ''YES'' None)
       = Inr t8Twice
   \<and> length (tasksFor (fst t8Once) 5 ''PDPL-T.8'') = 1
   \<and> length (tasksFor (fst t8Twice) 5 ''PDPL-T.8'') = 2
   \<and> length (responsesFor (fst t8Twice) 5 ''PDPL-T.8'') = 1
   \<and> submitResponse draftDb adminUser 1000 dayAdd 5 ''PDPL-T.8'' (bodyOf ''NO'' None) = Inr t8No
   \<and> submitResponse (fst t8No) adminUser 2000 dayAdd 5 ''PDPL-T.8'' (bodyOf ''YES'' None)
       = Inr t8NoYes
   \<and> length (tasksFor (fst t8NoYes) 5 ''PDPL-T.8'') = 2"
proof -
  let ?body = "bodyOf ''YES'' None"
  let ?no = "bodyOf ''NO'' None"
  let ?control = "sampleControl ''PDPL-T.8'' ''HIGH''"
  have s1: "submitResponse draftDb adminUser 1000 dayAdd 5 ''PDPL-T.8'' ?body = Inr t8Once"
    unfolding t8Once_def by (rule submitResponse_accepted[OF draftDb_accepted(3)])
  have "accepted (fst t8Once) adminUser 5 ''PDPL-T.8'' ?body ?control"
    unfolding t8Once_def using draftDb_accepted(3)
    by (simp only: accepted_frame[OF write_frame(1) write_frame(2) write_frame(3)])
  then have s2: "submitResponse (fst t8Once) adminUser 2000 dayAdd 5 ''PDPL-T.8'' ?body = Inr t8Twice"
    unfolding t8Twice_def by (rule submitResponse_accepted)
  have n1: "submitResponse draftDb adminUser 1000 dayAdd 5 ''PDPL-T.8'' ?no = Inr t8No"
    unfolding t8No_def by (rule submitResponse_accepted[OF draftDb_accepted_no])
  have "accepted (fst t8No) adminUser 5 ''PDPL-T.8'' ?body ?control"
    unfolding t8No_def using draftDb_accepted(3)
    by (simp only: accepted_frame[OF write_frame(1) write_frame(2) write_frame(3)])
  then have n2: "submitResponse (fst t8No) adminUser 2000 dayAdd 5 ''PDPL-T.8'' ?body = Inr t8NoYes"
    unfolding t8NoYes_def by (rule submitResponse_accepted)
  have g: "gapPart db adminUser now dayAdd 5 ''PDPL-T.8'' ?body ?control = []" for db now
    by (simp add: gapPart_def bodyOf_def)
  have u: "length (urgentPart db adminUser now dayAdd 5 ''PDPL-T.8'' ?body ?control) = 1" for db now
    by (simp add: urgentPart_def bodyOf_def startsWith_def)
  have e: "tasksFor draftDb 5 ''PDPL-T.8'' = []" "responsesFor draftDb 5 ''PDPL-T.8'' = []"
    by (simp_all add: tasksFor_def responsesFor_def draftDb_empty)
  have t1: "length (tasksFor (fst t8Once) 5 ''PDPL-T.8'') = 1"
    unfolding t8Once_def by (simp add: tasksFor_write g u e)
  have t2: "length (tasksFor (fst t8Twice) 5 ''PDPL-T.8'') = 2"
    unfolding t8Twice_def using t1 by (simp add: tasksFor_write g u)
  have r1: "length (responsesFor (fst t8Once) 5 ''PDPL-T.8'') = 1"
    unfolding t8Once_def by (simp add: write_responsesFor e)
  have r2: "length (responsesFor (fst t8Twice) 5 ''PDPL-T.8'') = 1"
    unfolding t8Twice_def using r1 by (simp add: write_responsesFor)
  have m1: "length (tasksFor (fst t8No) 5 ''PDPL-T.8'') = 1"
    unfolding t8No_def
    by (simp add: tasksFor_write e gapPart_def urgentPart_def findExistingTask_def draftDb_empty
        bodyOf_def)
  have m2: "length (tasksFor (fst t8NoYes) 5 ''PDPL-T.8'') = 2"
    unfolding t8NoYes_def using m1 by (simp add: tasksFor_write g u)
  from s1 s2 t1 t2 r2 n1 n2 m2 show ?thesis by simp
qed

text \<open>
  Claim C7.  A response answered NO or PARTIAL on an editable assessment, for a control that
  has no task yet for the pair, adds one task: its deadline is the instant of the request
  plus the days of the control's risk level (CRITICAL 30, HIGH 60, MEDIUM 90, LOW 180, any
  other value 90), and evidence is required for closure exactly when the risk level is
  CRITICAL or HIGH.
\<close>

theorem submitResponse_gap_task:
  assumes "findAssessment db aid (JwtPayload.orgId user) = Some a"
    and "Assessment.status a = DRAFT \<or> Assessment.status a = IN_REVIEW"
    and "find (\<lambda>c. Control.id c = cid) (controls db) = Some control"
    and "ResponseBody.answer body = ''NO'' \<or> ResponseBody.answer body = ''PARTIAL''"
    and "\<forall>t\<in>set (remediationTasks db). \<not> taskPair aid cid t"
  shows "(\<exists>db' r t. submitResponse db user now addDays aid cid body = Inr (db', r)
      \<and> remediationTasks db' = remediationTasks db @ [t]
      \<and> taskPair aid cid t
      \<and> RemediationTask.status t = OPEN
      \<and> RemediationTask.riskLevel t = Control.riskLevel control
      \<and> gapType t = (if ResponseBody.answer body = ''NO'' then ''GAP'' else ''PARTIAL'')
      \<and> deadline t = addDays now (getDefaultDeadlineDays (Control.riskLevel control))
      \<and> evidenceRequiredForClosure t
          = (Control.riskLevel control = ''CRITICAL'' \<or> Control.riskLevel control = ''HIGH''))
    \<and> getDefaultDeadlineDays ''CRITICAL'' = 30 \<and> getDefaultDeadlineDays ''HIGH'' = 60
    \<and> getDefaultDeadlineDays ''MEDIUM'' = 90 \<and> getDefaultDeadlineDays ''LOW'' = 180
    \<and> (risk \<notin> {''CRITICAL'', ''HIGH'', ''MEDIUM'', ''LOW''} \<longrightarrow> getDefaultDeadlineDays risk = 90)"
proof -
  have acc: "accepted db user aid cid body control"
    using assms(1-4) by (auto simp: accepted_def)
  have none: "\<forall>t\<in>set (remediationTasks db).
      \<not> (RemediationTask.assessmentId t = aid \<and> RemediationTask.controlId t = cid)"
    using assms(5) by (simp add: taskPair_def)
  from gap_task_created[OF acc assms(4) none, of now addDays]
  have 1: "\<exists>db' r t. submitResponse db user now addDays aid cid body = Inr (db', r)
      \<and> remediationTasks db' = remediationTasks db @ [t]
      \<and> taskPair aid cid t
      \<and> RemediationTask.status t = OPEN
      \<and> RemediationTask.riskLevel t = Control.riskLevel control
      \<and> gapType t = (if ResponseBody.answer body = ''NO'' then ''GAP'' else ''PARTIAL'')
      \<and> deadline t = addDays now (getDefaultDeadlineDays (Control.riskLevel control))
      \<and> evidenceRequiredForClosure t
          = (Control.riskLevel control = ''CRITICAL'' \<or> Control.riskLevel control = ''HIGH'')"
    unfolding taskPair_def by blast
  have 2: "getDefaultDeadlineDays ''CRITICAL'' = 30" "getDefaultDeadlineDays ''HIGH'' = 60"
    "getDefaultDeadlineDays ''MEDIUM'' = 90" "getDefaultDeadlineDays ''LOW'' = 180"
    by (simp_all add: getDefaultDeadlineDays_def)
  have 3: "risk \<notin> {''CRITICAL'', ''HIGH'', ''MEDIUM'', ''LOW''} \<longrightarrow> getDefaultDeadlineDays risk = 90"
    by (simp add: getDefaultDeadlineDays_def)
  from 1 2 3 show ?thesis by blast
qed

theorem submitResponse_gap_task_witness:
  "map deadline (remediationTasks (fst gapOnce)) = [dayAdd 1000 30]
   \<and> map evidenceRequiredForClosure (remediationTasks (fst gapOnce)) = [True]
   \<and> map deadline (remediationTasks (fst lowOnce)) = [dayAdd 1000 180]
   \<and> map evidenceRequiredForClosure (remediationTasks (fst lowOnce)) = [False]"
proof -
  have e: "\<forall>t\<in>set (remediationTasks draftDb). \<not> taskPair 5 cid t" for cid
    by (simp add: draftDb_empty)
  have st: "Assessment.status (newAssessment 5 2 1 10) = DRAFT
      \<or> Assessment.status (newAssessment 5 2 1 10) = IN_REVIEW"
    by (simp add: newAssessment_def)
  have no: "ResponseBody.answer (bodyOf ''NO'' None) = ''NO''
      \<or> ResponseBody.answer (bodyOf ''NO'' None) = ''PARTIAL''"
    by (simp add: bodyOf_def)
  have s1: "submitResponse draftDb adminUser 1000 dayAdd 5 ''PDPL-G.3'' (bodyOf ''NO'' None) = Inr gapOnce"
    unfolding gapOnce_def by (rule submitResponse_accepted[OF draftDb_accepted(1)])
  have s2: "submitResponse draftDb adminUser 1000 dayAdd 5 ''PDPL-TR.3'' (bodyOf ''NO'' None) = Inr lowOnce"
    unfolding lowOnce_def by (rule submitResponse_accepted[OF draftDb_accepted(2)])
  from submitResponse_gap_task
    [OF draftDb_assessment st draftDb_controls(1) no e, of 1000 dayAdd "''CRITICAL''"]
  obtain db1 r1 t1 where
    g: "submitResponse draftDb adminUser 1000 dayAdd 5 ''PDPL-G.3'' (bodyOf ''NO'' None) = Inr (db1, r1)"
      "remediationTasks db1 = remediationTasks draftDb @ [t1]"
      "deadline t1 = dayAdd 1000 (getDefaultDeadlineDays
          (Control.riskLevel (sampleControl ''PDPL-G.3'' ''CRITICAL'')))"
      "evidenceRequiredForClosure t1
        = (Control.riskLevel (sampleControl ''PDPL-G.3'' ''CRITICAL'') = ''CRITICAL''
           \<or> Control.riskLevel (sampleControl ''PDPL-G.3'' ''CRITICAL'') = ''HIGH'')"
    and d: "getDefaultDeadlineDays ''CRITICAL'' = 30" "getDefaultDeadlineDays ''LOW'' = 180"
    by blast
  from g(1) s1 have "db1 = fst gapOnce" by (rule same_result_fst)
  with g(2-4) d have c: "map deadline (remediationTasks (fst gapOnce)) = [dayAdd 1000 30]
      \<and> map evidenceRequiredForClosure (remediationTasks (fst gapOnce)) = [True]"
    by (simp add: draftDb_empty sampleControl_def)
  from submitResponse_gap_task
    [OF draftDb_assessment st draftDb_controls(2) no e, of 1000 dayAdd "''LOW''"]
  obtain db2 r2 t2 where
    h: "submitResponse draftDb adminUser 1000 dayAdd 5 ''PDPL-TR.3'' (bodyOf ''NO'' None) = Inr (db2, r2)"
      "remediationTasks db2 = remediationTasks draftDb @ [t2]"
      "deadline t2 = dayAdd 1000 (getDefaultDeadlineDays
          (Control.riskLevel (sampleControl ''PDPL-TR.3'' ''LOW'')))"
      "evidenceRequiredForClosure t2
        = (Control.riskLevel (sampleControl ''PDPL-TR.3'' ''LOW'') = ''CRITICAL''
           \<or> Control.riskLevel (sampleControl ''PDPL-TR.3'' ''LOW'') = ''HIGH'')"
    by blast
  from h(1) s2 have "db2 = fst lowOnce" by (rule same_result_fst)
  with h(2-4) d have l: "map deadline (remediationTasks (fst lowOnce)) = [dayAdd 1000 180]
      \<and> map evidenceRequiredForClosure (remediationTasks (fst lowOnce)) = [False]"
    by (simp add: draftDb_empty sampleControl_def)
  from c l show ?thesis by simp
qed




end
